theory Spec2Isabelle
  imports Main "HOL-Library.Sublist"
begin

section \<open>Values, errors and the object graph of the VBA project\<close>

text \<open>
  The service (\<^verbatim>\<open>src/word/word-service.ts\<close>) drives Word through COM. The model keeps
  the part of the object graph that the UserForm operations touch: the components of the
  document's VBA project, the designer of a form component, the controls on it and the text
  of a component's code module. Of the JavaScript numbers the model has the integers;
  \<^verbatim>\<open>Math.max\<close> is exact on them, and a difference is rounded as the arithmetic of
  IEEE 754 doubles rounds it (\<open>Number_minus\<close> below).
  Logging through \<^verbatim>\<open>debug\<close> has no effect on results and is left out.
\<close>

datatype jsval = Undefined | JNull | JBool bool | JNum int | JStr string

text \<open>A thrown JavaScript \<^verbatim>\<open>Error\<close> object with its message.\<close>

datatype error = Error string

fun message :: "error \<Rightarrow> string" where
  "message (Error m) = m"

text \<open>\<^verbatim>\<open>`${error}`\<close>: the string conversion of an \<^verbatim>\<open>Error\<close> object.\<close>

fun String_error :: "error \<Rightarrow> string" where
  "String_error (Error m) = (if m = [] then ''Error'' else ''Error: '' @ m)"

definition quoted :: "string \<Rightarrow> string" where
  "quoted s = [CHR 0x27] @ s @ [CHR 0x27]"

record control =
  cName :: string
  cClassId :: "string option"
  cCaption :: jsval
  cLeft :: int
  cTop :: int
  cWidth :: int
  cHeight :: int
  cValue :: jsval
  cText :: jsval

record designer =
  fCaption :: string
  fWidth :: int
  fHeight :: int
  fStartUpPosition :: int
  fControls :: "control list"

text \<open>
  A component of the VBA project. \<open>compType\<close> is the \<^verbatim>\<open>vbext_ct\<close> code
  (1 standard module, 3 MSForm, 100 document); \<open>compCode\<close> is the text of its code
  module; \<open>compDesigner\<close> is read only on components of type 3.
\<close>

record vbcomponent =
  compName :: string
  compType :: nat
  compCode :: string
  compDesigner :: designer

type_synonym vbproject = "vbcomponent list"

text \<open>
  Every COM access of the modelled operations is a \<open>hostcall\<close>. Components are
  addressed by their position in \<^verbatim>\<open>VBComponents\<close>, controls by the position of their
  form and their own position in \<^verbatim>\<open>Controls\<close>.
\<close>

datatype hostcall =
    GetActiveDocument
  | GetVBProject
  | VBComponentsAdd nat
  | VBComponentsItem string
  | SetComponentName nat string
  | GetType nat
  | GetDesigner nat
  | GetCodeModule nat
  | SetCaption nat string
  | SetWidth nat int
  | SetHeight nat int
  | SetStartUpPosition nat int
  | ControlsAdd nat "string option"
  | SetControlName nat nat string
  | SetControlCaption nat nat string
  | SetControlLeft nat nat int
  | SetControlTop nat nat int
  | SetControlWidth nat nat int
  | SetControlHeight nat nat int
  | Show nat
  | GetControlsCount nat
  | ControlsItem nat nat
  | GetControlName nat nat
  | GetControlValue nat nat
  | GetControlText nat nat
  | GetControlCaption nat nat
  | GetCountOfLines nat
  | GetLines nat
  | AddFromString nat string

text \<open>
  The host application is a parameter of the model. \<open>refuses\<close> tells whether a COM
  access raises in a given state of the project, and with which error; \<open>missing\<close> is
  the error of \<^verbatim>\<open>VBComponents.Item\<close> for a name that is not there; \<open>newComponent\<close>
  and \<open>newControl\<close> are the objects that \<^verbatim>\<open>VBComponents.Add\<close> and
  \<^verbatim>\<open>Controls.Add\<close> create, before the service sets their properties; \<open>shown\<close> is
  the form as the user leaves it when the modal \<^verbatim>\<open>Show\<close> returns; \<open>insertCode\<close> is
  the text of a code module after \<^verbatim>\<open>AddFromString\<close>.
\<close>

record host =
  refuses :: "hostcall \<Rightarrow> vbproject \<Rightarrow> error option"
  missing :: "string \<Rightarrow> error"
  newComponent :: "nat \<Rightarrow> vbproject \<Rightarrow> vbcomponent"
  newControl :: "string option \<Rightarrow> designer \<Rightarrow> control"
  shown :: "designer \<Rightarrow> designer"
  insertCode :: "string \<Rightarrow> string \<Rightarrow> string"

definition onComponent :: "nat \<Rightarrow> (vbcomponent \<Rightarrow> vbcomponent) \<Rightarrow> vbproject \<Rightarrow> vbproject" where
  "onComponent i g p = (if i < length p then p[i := g (p ! i)] else p)"

definition onDesigner :: "nat \<Rightarrow> (designer \<Rightarrow> designer) \<Rightarrow> vbproject \<Rightarrow> vbproject" where
  "onDesigner i g p = onComponent i (\<lambda>c. c\<lparr>compDesigner := g (compDesigner c)\<rparr>) p"

definition onControl :: "nat \<Rightarrow> nat \<Rightarrow> (control \<Rightarrow> control) \<Rightarrow> vbproject \<Rightarrow> vbproject" where
  "onControl i j g p =
     onDesigner i (\<lambda>d. if j < length (fControls d)
                        then d\<lparr>fControls := (fControls d)[j := g (fControls d ! j)]\<rparr>
                        else d) p"

text \<open>
  What an accepted COM access does to the project; reads leave it as it is. A new component
  is appended to \<^verbatim>\<open>VBComponents\<close>; it has the requested type and a form without
  controls. A new control is appended to \<^verbatim>\<open>Controls\<close>; it has the requested class.
\<close>

fun effect :: "host \<Rightarrow> hostcall \<Rightarrow> vbproject \<Rightarrow> vbproject" where
  "effect h (VBComponentsAdd t) p =
     p @ [(newComponent h t p)\<lparr>compType := t,
            compDesigner := (compDesigner (newComponent h t p))\<lparr>fControls := []\<rparr>\<rparr>]"
| "effect h (SetComponentName i n) p = onComponent i (\<lambda>c. c\<lparr>compName := n\<rparr>) p"
| "effect h (SetCaption i s) p = onDesigner i (\<lambda>d. d\<lparr>fCaption := s\<rparr>) p"
| "effect h (SetWidth i w) p = onDesigner i (\<lambda>d. d\<lparr>fWidth := w\<rparr>) p"
| "effect h (SetHeight i w) p = onDesigner i (\<lambda>d. d\<lparr>fHeight := w\<rparr>) p"
| "effect h (SetStartUpPosition i w) p = onDesigner i (\<lambda>d. d\<lparr>fStartUpPosition := w\<rparr>) p"
| "effect h (ControlsAdd i cls) p =
     onDesigner i (\<lambda>d. d\<lparr>fControls := fControls d @ [(newControl h cls d)\<lparr>cClassId := cls\<rparr>]\<rparr>) p"
| "effect h (SetControlName i j n) p = onControl i j (\<lambda>c. c\<lparr>cName := n\<rparr>) p"
| "effect h (SetControlCaption i j s) p = onControl i j (\<lambda>c. c\<lparr>cCaption := JStr s\<rparr>) p"
| "effect h (SetControlLeft i j x) p = onControl i j (\<lambda>c. c\<lparr>cLeft := x\<rparr>) p"
| "effect h (SetControlTop i j x) p = onControl i j (\<lambda>c. c\<lparr>cTop := x\<rparr>) p"
| "effect h (SetControlWidth i j x) p = onControl i j (\<lambda>c. c\<lparr>cWidth := x\<rparr>) p"
| "effect h (SetControlHeight i j x) p = onControl i j (\<lambda>c. c\<lparr>cHeight := x\<rparr>) p"
| "effect h (Show i) p = onDesigner i (shown h) p"
| "effect h (AddFromString i s) p = onComponent i (\<lambda>c. c\<lparr>compCode := insertCode h s (compCode c)\<rparr>) p"
| "effect h _ p = p"

text \<open>
  A run of COM accesses in program order: the first one the host refuses raises, and what
  the earlier ones did to the project stays done (the objects are mutated in place).
\<close>

type_synonym 'a outcome = "(error + 'a) \<times> vbproject"

fun runSteps :: "host \<Rightarrow> hostcall list \<Rightarrow> vbproject \<Rightarrow> unit outcome" where
  "runSteps h [] p = (Inr (), p)"
| "runSteps h (c # cs) p =
     (case refuses h c p of
        Some e \<Rightarrow> (Inl e, p)
      | None \<Rightarrow> runSteps h cs (effect h c p))"

text \<open>\<^verbatim>\<open>catch (error) { throw new Error(`msg${error}`) }\<close>\<close>

definition rethrow :: "string \<Rightarrow> 'a outcome \<Rightarrow> 'a outcome" where
  "rethrow msg r =
     (case fst r of
        Inl e \<Rightarrow> (Inl (Error (msg @ String_error e)), snd r)
      | Inr x \<Rightarrow> r)"

text \<open>\<^verbatim>\<open>VBComponents.Item(name)\<close>: the position of the first component of that name.\<close>

fun findComponent :: "string \<Rightarrow> vbproject \<Rightarrow> nat option" where
  "findComponent n [] = None"
| "findComponent n (c # cs) =
     (if compName c = n then Some 0 else map_option Suc (findComponent n cs))"

definition item :: "host \<Rightarrow> string \<Rightarrow> vbproject \<Rightarrow> error + nat" where
  "item h n p =
     (case refuses h (VBComponentsItem n) p of
        Some e \<Rightarrow> Inl e
      | None \<Rightarrow> (case findComponent n p of None \<Rightarrow> Inl (missing h n) | Some i \<Rightarrow> Inr i))"

text \<open>\<^verbatim>\<open>if (caption)\<close>: an absent or empty string is falsy.\<close>

fun truthy :: "string option \<Rightarrow> bool" where
  "truthy None = False"
| "truthy (Some s) = (s \<noteq> [])"

fun orEmpty :: "string option \<Rightarrow> string" where
  "orEmpty None = []"
| "orEmpty (Some s) = s"

text \<open>\<^verbatim>\<open>String.prototype.includes\<close>\<close>

fun str_includes :: "string \<Rightarrow> string \<Rightarrow> bool" where
  "str_includes [] t = (t = [])"
| "str_includes (c # cs) t =
     (if take (length t) (c # cs) = t then True else str_includes cs t)"

text \<open>
  \<^verbatim>\<open>a - b\<close> on numbers that are integers: the exact difference, rounded to the nearest
  double, a tie going to the even significand. An integer of magnitude up to \<open>2\<^sup>5\<^sup>3\<close> is
  a double; a larger one is rounded to a multiple of the unit in the last place of its 53-bit
  significand. \<open>bitlen n\<close> is the number of binary digits of \<open>n\<close>.
\<close>

fun bitlen :: "nat \<Rightarrow> nat" where
  "bitlen n = (if n = 0 then 0 else Suc (bitlen (n div 2)))"

declare bitlen.simps [simp del]

definition roundNumber :: "int \<Rightarrow> int" where
  "roundNumber x =
     (if \<bar>x\<bar> \<le> 9007199254740992 then x
      else (let u = 2 ^ (bitlen (nat \<bar>x\<bar>) - 53);
                q = \<bar>x\<bar> div u;
                r = \<bar>x\<bar> mod u;
                q' = (if 2 * r > u \<or> (2 * r = u \<and> odd q) then q + 1 else q)
            in sgn x * (q' * u)))"

definition Number_minus :: "int \<Rightarrow> int \<Rightarrow> int" where
  "Number_minus a b = roundNumber (a - b)"

section \<open>The service operations\<close>

subsection \<open>createUserForm\<close>

text \<open>
  \<^verbatim>\<open>getActiveDocument\<close> is awaited before the \<^verbatim>\<open>try\<close> block of every operation, so
  its error reaches the caller as it is. The new component is the last one of the project.
  An error of the caption assignment, and of the sizing block, is caught inside and only
  logged. The default values of optional numeric parameters apply when an argument is left
  out; all callers in the repository pass them, so the model takes the numbers.
\<close>

definition createUserForm_try ::
  "host \<Rightarrow> string \<Rightarrow> string option \<Rightarrow> int \<Rightarrow> int \<Rightarrow> vbproject \<Rightarrow> unit outcome" where
  "createUserForm_try h formName caption width height p =
     (let i = length p in
      case runSteps h [GetVBProject, VBComponentsAdd 3, SetComponentName i formName,
                       GetDesigner i] p of
        (Inl e, p1) \<Rightarrow> (Inl e, p1)
      | (Inr _, p1) \<Rightarrow>
          (let p2 = (if truthy caption
                     then snd (runSteps h [SetCaption i (orEmpty caption)] p1) else p1);
               minWidth = max width 300;
               minHeight = max height 200;
               p3 = snd (runSteps h [SetWidth i minWidth, SetHeight i minHeight,
                                     SetStartUpPosition i 1] p2)
           in (Inr (), p3)))"

definition createUserForm ::
  "host \<Rightarrow> string \<Rightarrow> string option \<Rightarrow> int \<Rightarrow> int \<Rightarrow> vbproject \<Rightarrow> unit outcome" where
  "createUserForm h formName caption width height p =
     (case refuses h GetActiveDocument p of
        Some e \<Rightarrow> (Inl e, p)
      | None \<Rightarrow>
          rethrow (''Failed to create UserForm '' @ quoted formName @ ''. Error: '')
            (createUserForm_try h formName caption width height p))"

subsection \<open>addControlToUserForm\<close>

fun controlClassMap :: "string \<Rightarrow> string option" where
  "controlClassMap t =
     (if t = ''commandButton'' then Some ''Forms.CommandButton.1''
      else if t = ''textBox'' then Some ''Forms.TextBox.1''
      else if t = ''label'' then Some ''Forms.Label.1''
      else if t = ''checkBox'' then Some ''Forms.CheckBox.1''
      else if t = ''optionButton'' then Some ''Forms.OptionButton.1''
      else if t = ''comboBox'' then Some ''Forms.ComboBox.1''
      else if t = ''listBox'' then Some ''Forms.ListBox.1''
      else if t = ''toggleButton'' then Some ''Forms.ToggleButton.1''
      else if t = ''spinButton'' then Some ''Forms.SpinButton.1''
      else if t = ''scrollBar'' then Some ''Forms.ScrollBar.1''
      else if t = ''image'' then Some ''Forms.Image.1''
      else if t = ''frame'' then Some ''Forms.Frame.1''
      else None)"

text \<open>The property assignments on the control that \<^verbatim>\<open>Controls.Add\<close> returned.\<close>

definition controlSteps ::
  "nat \<Rightarrow> nat \<Rightarrow> string \<Rightarrow> string \<Rightarrow> string option \<Rightarrow> int \<Rightarrow> int \<Rightarrow> int \<Rightarrow> int \<Rightarrow> hostcall list" where
  "controlSteps i j controlType controlName caption left top' width height =
     [GetDesigner i, ControlsAdd i (controlClassMap controlType), SetControlName i j controlName]
     @ (if truthy caption then [SetControlCaption i j (orEmpty caption)] else [])
     @ [SetControlLeft i j left, SetControlTop i j top',
        SetControlWidth i j width, SetControlHeight i j height]"

definition addControlToUserForm_try ::
  "host \<Rightarrow> string \<Rightarrow> string \<Rightarrow> string \<Rightarrow> string option \<Rightarrow> int \<Rightarrow> int \<Rightarrow> int \<Rightarrow> int
    \<Rightarrow> vbproject \<Rightarrow> unit outcome" where
  "addControlToUserForm_try h formName controlType controlName caption left top' width height p =
     (case refuses h GetVBProject p of
        Some e \<Rightarrow> (Inl e, p)
      | None \<Rightarrow>
     (case item h formName p of
        Inl e \<Rightarrow> (Inl e, p)
      | Inr i \<Rightarrow>
     (case refuses h (GetType i) p of
        Some e \<Rightarrow> (Inl e, p)
      | None \<Rightarrow>
          if compType (p ! i) \<noteq> 3
          then (Inl (Error (quoted formName @ '' is not a UserForm'')), p)
          else runSteps h
                 (controlSteps i (length (fControls (compDesigner (p ! i))))
                    controlType controlName caption left top' width height) p)))"

definition addControlToUserForm ::
  "host \<Rightarrow> string \<Rightarrow> string \<Rightarrow> string \<Rightarrow> string option \<Rightarrow> int \<Rightarrow> int \<Rightarrow> int \<Rightarrow> int
    \<Rightarrow> vbproject \<Rightarrow> unit outcome" where
  "addControlToUserForm h formName controlType controlName caption left top' width height p =
     (case refuses h GetActiveDocument p of
        Some e \<Rightarrow> (Inl e, p)
      | None \<Rightarrow>
          rethrow (''Failed to add control to UserForm '' @ quoted formName @ ''. Error: '')
            (addControlToUserForm_try h formName controlType controlName caption
               left top' width height p))"

subsection \<open>showUserForm\<close>

text \<open>
  The body of the extraction loop for the control at position \<open>k\<close>: the entry it
  stores in \<open>formData\<close>, if any. A property that is tested and then read is read twice
  by the source; the host answers both reads alike, so the model asks once.
\<close>

type_synonym formdata = "string \<rightharpoonup> jsval"

definition extractControl ::
  "host \<Rightarrow> vbproject \<Rightarrow> nat \<Rightarrow> nat \<Rightarrow> control \<Rightarrow> error + (string \<times> jsval) option" where
  "extractControl h p i k control =
     (case fst (runSteps h [ControlsItem i k, GetControlName i k, GetControlValue i k] p) of
        Inl e \<Rightarrow> Inl e
      | Inr _ \<Rightarrow>
          if cValue control \<noteq> Undefined then Inr (Some (cName control, cValue control))
          else (case refuses h (GetControlText i k) p of
                  Some e \<Rightarrow> Inl e
                | None \<Rightarrow>
                    if cText control \<noteq> Undefined then Inr (Some (cName control, cText control))
                    else (case refuses h (GetControlCaption i k) p of
                            Some e \<Rightarrow> Inl e
                          | None \<Rightarrow>
                              if cCaption control \<noteq> Undefined
                              then Inr (Some (cName control, cCaption control))
                              else Inr None)))"

text \<open>
  The loop over \<^verbatim>\<open>userForm.Controls\<close>, from position \<open>k\<close> on. The loop condition
  reads \<^verbatim>\<open>Controls.Count\<close> before every round. The whole loop sits in one
  \<^verbatim>\<open>try\<close>: the first access that raises ends it, and \<open>formData\<close> keeps what was
  stored until then.
\<close>

fun collect ::
  "host \<Rightarrow> vbproject \<Rightarrow> nat \<Rightarrow> nat \<Rightarrow> control list \<Rightarrow> formdata \<Rightarrow> error option \<times> formdata" where
  "collect h p i k [] formData =
     (case refuses h (GetControlsCount i) p of
        Some e \<Rightarrow> (Some e, formData)
      | None \<Rightarrow> (None, formData))"
| "collect h p i k (control # rest) formData =
     (case refuses h (GetControlsCount i) p of
        Some e \<Rightarrow> (Some e, formData)
      | None \<Rightarrow>
          (case extractControl h p i k control of
             Inl e \<Rightarrow> (Some e, formData)
           | Inr None \<Rightarrow> collect h p i (Suc k) rest formData
           | Inr (Some (n, v)) \<Rightarrow> collect h p i (Suc k) rest (formData(n \<mapsto> v))))"

text \<open>
  The \<^verbatim>\<open>catch (collectError)\<close> around the loop only logs, so the operation returns
  \<open>formData\<close> whether or not the loop ended by an error.
\<close>

definition showUserForm_try :: "host \<Rightarrow> string \<Rightarrow> vbproject \<Rightarrow> formdata outcome" where
  "showUserForm_try h formName p =
     (case refuses h GetVBProject p of
        Some e \<Rightarrow> (Inl e, p)
      | None \<Rightarrow>
     (case item h formName p of
        Inl e \<Rightarrow> (Inl e, p)
      | Inr i \<Rightarrow>
     (case refuses h (GetType i) p of
        Some e \<Rightarrow> (Inl e, p)
      | None \<Rightarrow>
          if compType (p ! i) \<noteq> 3
          then (Inl (Error (quoted formName @ '' is not a UserForm'')), p)
          else (case runSteps h [GetDesigner i, Show i] p of
                  (Inl e, p1) \<Rightarrow> (Inl e, p1)
                | (Inr _, p1) \<Rightarrow>
                    (Inr (snd (collect h p1 i 0 (fControls (compDesigner (p1 ! i))) Map.empty)),
                     p1)))))"

definition showUserForm :: "host \<Rightarrow> string \<Rightarrow> vbproject \<Rightarrow> formdata outcome" where
  "showUserForm h formName p =
     (case refuses h GetActiveDocument p of
        Some e \<Rightarrow> (Inl e, p)
      | None \<Rightarrow>
          rethrow (''Failed to show UserForm '' @ quoted formName @ ''. Error: '')
            (showUserForm_try h formName p))"

subsection \<open>The generated VBA helper code\<close>

text \<open>The text that \<^verbatim>\<open>createShowUserFormModalFunction\<close> adds to the helper module.\<close>

definition vbaCode :: string where
  \<open>vbaCode =
     ''\<newline>'' @
     ''' ShowUserFormModal - Displays a UserForm modally and returns collected data\<newline>'' @
     ''' Parameter: formName - Name of the UserForm to display\<newline>'' @
     ''' Returns: JSON-like string with form data, or empty string if cancelled\<newline>'' @
     ''Function ShowUserFormModal(formName As String) As String\<newline>'' @
     ''    On Error GoTo ErrorHandler\<newline>'' @
     ''    \<newline>'' @
     ''    Dim formComponent As Object\<newline>'' @
     ''    Dim userForm As Object\<newline>'' @
     ''    Dim result As String\<newline>'' @
     ''    Dim cancelled As Boolean\<newline>'' @
     ''    \<newline>'' @
     ''    ' Initialize result\<newline>'' @
     ''    result = ""\<newline>'' @
     ''    cancelled = False\<newline>'' @
     ''    \<newline>'' @
     ''    ' Get the UserForm by name\<newline>'' @
     ''    Set formComponent = ThisDocument.VBProject.VBComponents(formName)\<newline>'' @
     ''    \<newline>'' @
     ''    If formComponent.Type <> 3 Then ' vbext_ct_MSForm\<newline>'' @
     ''        MsgBox "Error: '" & formName & "' is not a UserForm", vbCritical\<newline>'' @
     ''        ShowUserFormModal = ""\<newline>'' @
     ''        Exit Function\<newline>'' @
     ''    End If\<newline>'' @
     ''    \<newline>'' @
     ''    Set userForm = formComponent.Designer\<newline>'' @
     ''    \<newline>'' @
     ''    ' Add event handlers for OK/Cancel buttons if they exist\<newline>'' @
     ''    ' This is handled by individual form design\<newline>'' @
     ''    \<newline>'' @
     ''    ' Show the form modally\<newline>'' @
     ''    userForm.Show vbModal\<newline>'' @
     ''    \<newline>'' @
     ''    ' Check if form was cancelled (assuming a global variable or form property)\<newline>'' @
     ''    ' For now, we'll assume if the form is hidden, data was submitted\<newline>'' @
     ''    \<newline>'' @
     ''    ' Collect data from all controls\<newline>'' @
     ''    result = CollectFormData(userForm)\<newline>'' @
     ''    \<newline>'' @
     ''    ShowUserFormModal = result\<newline>'' @
     ''    Exit Function\<newline>'' @
     ''    \<newline>'' @
     ''ErrorHandler:\<newline>'' @
     ''    MsgBox "Error displaying UserForm '" & formName & "': " & Err.Description, vbCritical\<newline>'' @
     ''    ShowUserFormModal = ""\<newline>'' @
     ''End Function\<newline>'' @
     ''\<newline>'' @
     ''' Helper function to collect data from UserForm controls\<newline>'' @
     ''Private Function CollectFormData(userForm As Object) As String\<newline>'' @
     ''    On Error GoTo ErrorHandler\<newline>'' @
     ''    \<newline>'' @
     ''    Dim i As Integer\<newline>'' @
     ''    Dim control As Object\<newline>'' @
     ''    Dim result As String\<newline>'' @
     ''    Dim controlData As String\<newline>'' @
     ''    \<newline>'' @
     ''    result = "{"\<newline>'' @
     ''    \<newline>'' @
     ''    ' Iterate through all controls\<newline>'' @
     ''    For i = 0 To userForm.Controls.Count - 1\<newline>'' @
     ''        Set control = userForm.Controls(i)\<newline>'' @
     ''        controlData = ""\<newline>'' @
     ''        \<newline>'' @
     ''        ' Extract data based on control type\<newline>'' @
     ''        Select Case TypeName(control)\<newline>'' @
     ''            Case "TextBox"\<newline>'' @
     ''                controlData = """ & control.Name & "":"" & control.Text & """\<newline>'' @
     ''            Case "ComboBox"\<newline>'' @
     ''                controlData = """ & control.Name & "":"" & control.Text & """\<newline>'' @
     ''            Case "CheckBox"\<newline>'' @
     ''                controlData = """ & control.Name & "":" & IIf(control.Value, "true", "false")\<newline>'' @
     ''            Case "OptionButton"\<newline>'' @
     ''                controlData = """ & control.Name & "":" & IIf(control.Value, "true", "false")\<newline>'' @
     ''            Case "ListBox"\<newline>'' @
     ''                If control.ListIndex >= 0 Then\<newline>'' @
     ''                    controlData = """ & control.Name & "":"" & control.List(control.ListIndex) & """\<newline>'' @
     ''                Else\<newline>'' @
     ''                    controlData = """ & control.Name & "":"""\<newline>'' @
     ''                End If\<newline>'' @
     ''            Case "Label"\<newline>'' @
     ''                ' Skip labels as they don't contain user input\<newline>'' @
     ''            Case "CommandButton"\<newline>'' @
     ''                ' Skip buttons as they don't contain user input\<newline>'' @
     ''            Case Else\<newline>'' @
     ''                ' Try to get Value or Text property\<newline>'' @
     ''                On Error Resume Next\<newline>'' @
     ''                If Not IsEmpty(control.Value) Then\<newline>'' @
     ''                    controlData = """ & control.Name & "":"" & control.Value & """\<newline>'' @
     ''                ElseIf control.Text <> "" Then\<newline>'' @
     ''                    controlData = """ & control.Name & "":"" & control.Text & """\<newline>'' @
     ''                End If\<newline>'' @
     ''                On Error GoTo ErrorHandler\<newline>'' @
     ''        End Select\<newline>'' @
     ''        \<newline>'' @
     ''        ' Add to result if we have data\<newline>'' @
     ''        If controlData <> "" Then\<newline>'' @
     ''            If Len(result) > 1 Then result = result & ","\<newline>'' @
     ''            result = result & controlData\<newline>'' @
     ''        End If\<newline>'' @
     ''    Next i\<newline>'' @
     ''    \<newline>'' @
     ''    result = result & "}"\<newline>'' @
     ''    CollectFormData = result\<newline>'' @
     ''    Exit Function\<newline>'' @
     ''    \<newline>'' @
     ''ErrorHandler:\<newline>'' @
     ''    CollectFormData = "{}"\<newline>'' @
     ''End Function\<newline>'' @
     ''\<newline>'' @
     ''' Helper function to create standard OK/Cancel buttons on a UserForm\<newline>'' @
     ''Sub AddOKCancelButtons(userForm As Object)\<newline>'' @
     ''    On Error GoTo ErrorHandler\<newline>'' @
     ''    \<newline>'' @
     ''    Dim btnOK As Object\<newline>'' @
     ''    Dim btnCancel As Object\<newline>'' @
     ''    \<newline>'' @
     ''    ' Add OK button\<newline>'' @
     ''    Set btnOK = userForm.Controls.Add("Forms.CommandButton.1")\<newline>'' @
     ''    With btnOK\<newline>'' @
     ''        .Name = "btnOK"\<newline>'' @
     ''        .Caption = "OK"\<newline>'' @
     ''        .Left = userForm.Width - 160\<newline>'' @
     ''        .Top = userForm.Height - 60\<newline>'' @
     ''        .Width = 70\<newline>'' @
     ''        .Height = 25\<newline>'' @
     ''    End With\<newline>'' @
     ''    \<newline>'' @
     ''    ' Add Cancel button\<newline>'' @
     ''    Set btnCancel = userForm.Controls.Add("Forms.CommandButton.1")\<newline>'' @
     ''    With btnCancel\<newline>'' @
     ''        .Name = "btnCancel"\<newline>'' @
     ''        .Caption = "Cancel"\<newline>'' @
     ''        .Left = userForm.Width - 80\<newline>'' @
     ''        .Top = userForm.Height - 60\<newline>'' @
     ''        .Width = 70\<newline>'' @
     ''        .Height = 25\<newline>'' @
     ''    End With\<newline>'' @
     ''    \<newline>'' @
     ''    Exit Sub\<newline>'' @
     ''    \<newline>'' @
     ''ErrorHandler:\<newline>'' @
     ''    ' Ignore errors in button creation\<newline>'' @
     ''End Sub\<newline>''\<close>

text \<open>The text that \<^verbatim>\<open>addStandardFormEventHandlers\<close> adds to a form's code module.\<close>

definition buttonCode :: string where
  \<open>buttonCode =
     ''\<newline>'' @
     ''Private cancelled As Boolean\<newline>'' @
     ''Private formData As String\<newline>'' @
     ''\<newline>'' @
     ''' Standard OK button handler\<newline>'' @
     ''Private Sub btnOK_Click()\<newline>'' @
     ''    cancelled = False\<newline>'' @
     ''    Me.Hide\<newline>'' @
     ''End Sub\<newline>'' @
     ''\<newline>'' @
     ''' Standard Cancel button handler\<newline>'' @
     ''Private Sub btnCancel_Click()\<newline>'' @
     ''    cancelled = True\<newline>'' @
     ''    Me.Hide\<newline>'' @
     ''End Sub\<newline>'' @
     ''\<newline>'' @
     ''' Handle form close (X button)\<newline>'' @
     ''Private Sub UserForm_QueryClose(Cancel As Integer, CloseMode As Integer)\<newline>'' @
     ''    If CloseMode = 0 Then ' User clicked X button\<newline>'' @
     ''        cancelled = True\<newline>'' @
     ''    End If\<newline>'' @
     ''End Sub\<newline>'' @
     ''\<newline>'' @
     ''' Helper function to check if form was cancelled\<newline>'' @
     ''Public Function WasCancelled() As Boolean\<newline>'' @
     ''    WasCancelled = cancelled\<newline>'' @
     ''End Function\<newline>''\<close>

subsection \<open>createShowUserFormModalFunction and addStandardFormEventHandlers\<close>

text \<open>
  \<^verbatim>\<open>try { helperModule = Item("UserFormHelper") } catch { Add(1); Name = ... }\<close>: any
  error of the lookup leads to the creation of a new standard module.
\<close>

definition helperModule :: "host \<Rightarrow> vbproject \<Rightarrow> nat outcome" where
  "helperModule h p =
     (case item h ''UserFormHelper'' p of
        Inr i \<Rightarrow> (Inr i, p)
      | Inl _ \<Rightarrow>
          (case runSteps h [VBComponentsAdd 1, SetComponentName (length p) ''UserFormHelper''] p of
             (Inl e, p1) \<Rightarrow> (Inl e, p1)
           | (Inr _, p1) \<Rightarrow> (Inr (length p), p1)))"

definition createShowUserFormModalFunction_try :: "host \<Rightarrow> vbproject \<Rightarrow> unit outcome" where
  "createShowUserFormModalFunction_try h p =
     (case refuses h GetVBProject p of
        Some e \<Rightarrow> (Inl e, p)
      | None \<Rightarrow>
     (case helperModule h p of
        (Inl e, p1) \<Rightarrow> (Inl e, p1)
      | (Inr i, p1) \<Rightarrow>
     (case runSteps h [GetCodeModule i, GetCountOfLines i, GetLines i] p1 of
        (Inl e, p2) \<Rightarrow> (Inl e, p2)
      | (Inr _, p2) \<Rightarrow>
          (let existingCode = compCode (p2 ! i) in
           if str_includes existingCode ''Function ShowUserFormModal''
           then (Inr (), p2)
           else runSteps h [AddFromString i vbaCode] p2))))"

definition createShowUserFormModalFunction :: "host \<Rightarrow> vbproject \<Rightarrow> unit outcome" where
  "createShowUserFormModalFunction h p =
     (case refuses h GetActiveDocument p of
        Some e \<Rightarrow> (Inl e, p)
      | None \<Rightarrow>
          rethrow ''Failed to create ShowUserFormModal function. Error: ''
            (createShowUserFormModalFunction_try h p))"

definition addStandardFormEventHandlers_try :: "host \<Rightarrow> string \<Rightarrow> vbproject \<Rightarrow> unit outcome" where
  "addStandardFormEventHandlers_try h formName p =
     (case refuses h GetVBProject p of
        Some e \<Rightarrow> (Inl e, p)
      | None \<Rightarrow>
     (case item h formName p of
        Inl e \<Rightarrow> (Inl e, p)
      | Inr i \<Rightarrow>
     (case refuses h (GetType i) p of
        Some e \<Rightarrow> (Inl e, p)
      | None \<Rightarrow>
          if compType (p ! i) \<noteq> 3
          then (Inl (Error (quoted formName @ '' is not a UserForm'')), p)
          else (case runSteps h [GetCodeModule i, GetCountOfLines i, GetLines i] p of
                  (Inl e, p1) \<Rightarrow> (Inl e, p1)
                | (Inr _, p1) \<Rightarrow>
                    (let existingCode = compCode (p1 ! i) in
                     if str_includes existingCode ''btnOK_Click''
                     then (Inr (), p1)
                     else runSteps h [AddFromString i buttonCode] p1)))))"

definition addStandardFormEventHandlers :: "host \<Rightarrow> string \<Rightarrow> vbproject \<Rightarrow> unit outcome" where
  "addStandardFormEventHandlers h formName p =
     (case refuses h GetActiveDocument p of
        Some e \<Rightarrow> (Inl e, p)
      | None \<Rightarrow>
          rethrow (''Failed to add event handlers to form '' @ quoted formName @ ''. Error: '')
            (addStandardFormEventHandlers_try h formName p))"

subsection \<open>createFormWithControls\<close>

record ctrl =
  ctrl_type :: string
  ctrl_name :: string
  ctrl_caption :: "string option"
  ctrl_left :: int
  ctrl_top :: int
  ctrl_width :: int
  ctrl_height :: int

text \<open>\<^verbatim>\<open>for (const ctrl of controls) await this.addControlToUserForm(...)\<close>\<close>

fun addControls :: "host \<Rightarrow> string \<Rightarrow> ctrl list \<Rightarrow> vbproject \<Rightarrow> unit outcome" where
  "addControls h formName [] p = (Inr (), p)"
| "addControls h formName (c # cs) p =
     (case addControlToUserForm h formName (ctrl_type c) (ctrl_name c)
             (Some (orEmpty (ctrl_caption c)))
             (ctrl_left c) (ctrl_top c) (ctrl_width c) (ctrl_height c) p of
        (Inl e, p1) \<Rightarrow> (Inl e, p1)
      | (Inr _, p1) \<Rightarrow> addControls h formName cs p1)"

definition addButtons :: "host \<Rightarrow> string \<Rightarrow> int \<Rightarrow> int \<Rightarrow> vbproject \<Rightarrow> unit outcome" where
  "addButtons h formName width height p =
     (let buttonTop = Number_minus height 60;
          buttonRight = Number_minus width 20 in
      case addControlToUserForm h formName ''commandButton'' ''btnOK'' (Some ''OK'')
             (Number_minus buttonRight 160) buttonTop 70 30 p of
        (Inl e, p1) \<Rightarrow> (Inl e, p1)
      | (Inr _, p1) \<Rightarrow>
     (case addControlToUserForm h formName ''commandButton'' ''btnCancel'' (Some ''Cancel'')
             (Number_minus buttonRight 80) buttonTop 70 30 p1 of
        (Inl e, p2) \<Rightarrow> (Inl e, p2)
      | (Inr _, p2) \<Rightarrow> addStandardFormEventHandlers h formName p2))"

definition createFormWithControls_try ::
  "host \<Rightarrow> string \<Rightarrow> string \<Rightarrow> int \<Rightarrow> int \<Rightarrow> ctrl list \<Rightarrow> bool \<Rightarrow> vbproject \<Rightarrow> unit outcome" where
  "createFormWithControls_try h formName caption width height controls addStandardButtons p =
     (case createUserForm h formName (Some caption) width height p of
        (Inl e, p1) \<Rightarrow> (Inl e, p1)
      | (Inr _, p1) \<Rightarrow>
     (case addControls h formName controls p1 of
        (Inl e, p2) \<Rightarrow> (Inl e, p2)
      | (Inr _, p2) \<Rightarrow>
          if addStandardButtons then addButtons h formName width height p2
          else (Inr (), p2)))"

definition createFormWithControls ::
  "host \<Rightarrow> string \<Rightarrow> string \<Rightarrow> int \<Rightarrow> int \<Rightarrow> ctrl list \<Rightarrow> bool \<Rightarrow> vbproject \<Rightarrow> unit outcome" where
  "createFormWithControls h formName caption width height controls addStandardButtons p =
     (case refuses h GetActiveDocument p of
        Some e \<Rightarrow> (Inl e, p)
      | None \<Rightarrow>
          rethrow (''Failed to create form '' @ quoted formName @ ''. Error: '')
            (createFormWithControls_try h formName caption width height controls
               addStandardButtons p))"

section \<open>The tool layer\<close>

text \<open>
  The handlers of \<^verbatim>\<open>word_userform_show\<close> and \<^verbatim>\<open>word_userform_createWithControls\<close>
  together with the service operations that they call, and then all registered handlers.
  A \<open>CallToolResult\<close> carries one text item; \<open>isError\<close> is an optional field.
  \<^verbatim>\<open>JSON.stringify\<close> is a parameter of the first handler.
\<close>

record CallToolResult =
  content_text :: string
  isError :: "bool option"


record formArgs =
  arg_formName :: string
  arg_caption :: string
  arg_width :: int
  arg_height :: int
  arg_controls :: "ctrl list"
  arg_addStandardButtons :: bool

fun String_nat :: "nat \<Rightarrow> string" where
  "String_nat n =
     (if n < 10 then [''0123456789'' ! n]
      else String_nat (n div 10) @ [''0123456789'' ! (n mod 10)])"

declare String_nat.simps [simp del]

definition createFormWithControlsTool ::
  "host \<Rightarrow> formArgs \<Rightarrow> vbproject \<Rightarrow> CallToolResult \<times> vbproject" where
  "createFormWithControlsTool h args p =
     (case createFormWithControls h (arg_formName args) (arg_caption args) (arg_width args)
             (arg_height args) (arg_controls args) (arg_addStandardButtons args) p of
        (Inr _, p1) \<Rightarrow>
          (\<lparr>content_text = ''Successfully created UserForm '' @ quoted (arg_formName args)
                @ '' with '' @ String_nat (length (arg_controls args)) @ '' controls. ''
                @ (if arg_addStandardButtons args
                   then ''Standard OK/Cancel buttons and event handlers added.''
                   else ''No standard buttons added.''),
            isError = None\<rparr>, p1)
      | (Inl e, p1) \<Rightarrow>
          (\<lparr>content_text = ''Failed to create form: '' @ message e,
            isError = Some True\<rparr>, p1))"

text \<open>
  \<^verbatim>\<open>createFormWithControlsSchema\<close>: the arguments as they arrive, and what the schema
  makes of them. The typed fields stand for \<^verbatim>\<open>z.string()\<close>, \<^verbatim>\<open>z.number()\<close> and
  \<^verbatim>\<open>z.boolean()\<close>; \<^verbatim>\<open>.min(300)\<close> and \<^verbatim>\<open>.min(200)\<close> reject smaller numbers;
  the control type is one of an enumeration; an absent \<^verbatim>\<open>addStandardButtons\<close>
  defaults to true. All issues are reported together.
\<close>

record rawFormArgs =
  raw_formName :: string
  raw_caption :: string
  raw_width :: int
  raw_height :: int
  raw_controls :: "ctrl list"
  raw_addStandardButtons :: "bool option"

datatype zodIssue = TooSmall string int | InvalidEnumValue nat string

definition controlTypeEnum :: "string list" where
  "controlTypeEnum = [''textBox'', ''label'', ''commandButton'', ''checkBox'',
                      ''optionButton'', ''comboBox'', ''listBox'']"

definition schemaIssues :: "rawFormArgs \<Rightarrow> zodIssue list" where
  "schemaIssues a =
     (if raw_width a < 300 then [TooSmall ''width'' 300] else [])
     @ (if raw_height a < 200 then [TooSmall ''height'' 200] else [])
     @ concat (map (\<lambda>(k, c). if ctrl_type c \<in> set controlTypeEnum then []
                               else [InvalidEnumValue k (ctrl_type c)])
                 (enumerate 0 (raw_controls a)))"

definition createFormWithControlsSchema :: "rawFormArgs \<Rightarrow> zodIssue list + formArgs" where
  "createFormWithControlsSchema a =
     (if schemaIssues a = []
      then Inr \<lparr>arg_formName = raw_formName a, arg_caption = raw_caption a,
                arg_width = raw_width a, arg_height = raw_height a,
                arg_controls = raw_controls a,
                arg_addStandardButtons =
                  (case raw_addStandardButtons a of None \<Rightarrow> True | Some b \<Rightarrow> b)\<rparr>
      else Inl (schemaIssues a))"

text \<open>
  \<^verbatim>\<open>server.tool("word_userform_createWithControls", ..., createFormWithControlsSchema.shape,
  createFormWithControlsTool)\<close>: the handler is registered behind its schema and receives
  the parsed arguments (its parameter has the type \<^verbatim>\<open>z.infer\<close> of the schema);
  arguments that do not parse never reach it.
\<close>

definition word_userform_createWithControls ::
  "host \<Rightarrow> rawFormArgs \<Rightarrow> vbproject \<Rightarrow> (zodIssue list + CallToolResult) \<times> vbproject" where
  "word_userform_createWithControls h a p =
     (case createFormWithControlsSchema a of
        Inl issues \<Rightarrow> (Inl issues, p)
      | Inr args \<Rightarrow> (Inr (fst (createFormWithControlsTool h args p)),
                     snd (createFormWithControlsTool h args p)))"

subsection \<open>The registered handlers\<close>


































































section \<open>The behaviour of the generated VBA code\<close>

subsection \<open>The standard event handlers of a form\<close>

text \<open>
  The module-level variables that \<open>buttonCode\<close> declares, and whether the form is
  visible (\<^verbatim>\<open>Me.Hide\<close>). Each procedure of \<open>buttonCode\<close> is a function on them.
\<close>

record formVars =
  cancelled :: bool
  formData :: string
  visible :: bool

definition btnOK_Click :: "formVars \<Rightarrow> formVars" where
  "btnOK_Click v = v\<lparr>cancelled := False, visible := False\<rparr>"

definition btnCancel_Click :: "formVars \<Rightarrow> formVars" where
  "btnCancel_Click v = v\<lparr>cancelled := True, visible := False\<rparr>"

definition UserForm_QueryClose :: "int \<Rightarrow> int \<Rightarrow> formVars \<Rightarrow> formVars" where
  "UserForm_QueryClose Cancel CloseMode v =
     (if CloseMode = 0 then v\<lparr>cancelled := True\<rparr> else v)"

definition WasCancelled :: "formVars \<Rightarrow> bool" where
  "WasCancelled v = cancelled v"

subsection \<open>CollectFormData\<close>

text \<open>
  The quotation marks that the template of \<open>vbaCode\<close> writes with a backslash arrive in
  the inserted text as plain quotation marks, and inside a VBA string literal two adjacent
  quotation marks stand for one quotation mark of the string. \<open>vbaLiteral\<close> reads the
  string literal at the start of a piece of VBA text: its value, and the text after it.
\<close>

fun vbaString :: "string \<Rightarrow> (string \<times> string) option" where
  "vbaString [] = None"
| "vbaString [c] = (if c = CHR 0x22 then Some ([], []) else None)"
| "vbaString (c # d # ds) =
     (if c = CHR 0x22
      then (if d = CHR 0x22 then map_option (apfst ((#) (CHR 0x22))) (vbaString ds)
            else Some ([], d # ds))
      else map_option (apfst ((#) c)) (vbaString (d # ds)))"

definition vbaLiteral :: "string \<Rightarrow> (string \<times> string) option" where
  "vbaLiteral s = (case s of [] \<Rightarrow> None | c # cs \<Rightarrow> if c = CHR 0x22 then vbaString cs else None)"

text \<open>
  The string literals on the right-hand sides of the assignments to \<open>controlData\<close>. Each
  right-hand side for a text value is one literal from its first to its last character, so
  these are constant texts: the names \<^verbatim>\<open>control.Name\<close>, \<^verbatim>\<open>control.Text\<close>,
  \<^verbatim>\<open>control.Value\<close> and \<^verbatim>\<open>control.List\<close> in them are characters of the string and
  are not evaluated. In the two assignments for a check box or option button the literal
  ends before the \<^verbatim>\<open>&\<close> that appends the value of \<^verbatim>\<open>IIf\<close>.
\<close>

definition textLiteral :: string where
  \<open>textLiteral = ''" & control.Name & ":" & control.Text & "''\<close>

definition boolLiteral :: string where
  \<open>boolLiteral = ''" & control.Name & ":''\<close>

definition listLiteral :: string where
  \<open>listLiteral = ''" & control.Name & ":" & control.List(control.ListIndex) & "''\<close>

definition noSelectionLiteral :: string where
  \<open>noSelectionLiteral = ''" & control.Name & ":"''\<close>

definition valueLiteral :: string where
  \<open>valueLiteral = ''" & control.Name & ":" & control.Value & "''\<close>

text \<open>
  A control as \<^verbatim>\<open>CollectFormData\<close> sees it: one constructor for each
  \<^verbatim>\<open>TypeName\<close> that the \<^verbatim>\<open>Select Case\<close> names, and \<open>OtherControl\<close> for every
  other type name, each with the name of the control and the properties that the text of
  its branch mentions. A check box or option button has the value \<^verbatim>\<open>Null\<close> (here
  \<open>None\<close>) in its third state. For another control, \<open>None\<close> says that reading the
  property raises.
\<close>

datatype variant = VEmpty | VNull | VBool bool | VNum int | VStr string

datatype vbacontrol =
    TextBox string string
  | ComboBox string string
  | CheckBox string "bool option"
  | OptionButton string "bool option"
  | ListBox string int "string list"
  | Label string
  | CommandButton string
  | OtherControl string "variant option" "string option"

text \<open>
  The \<^verbatim>\<open>Select Case\<close>: the value of \<open>controlData\<close> after it, or \<open>None\<close> when a
  run-time error sends control to \<^verbatim>\<open>ErrorHandler\<close> (\<^verbatim>\<open>IIf\<close> on \<^verbatim>\<open>Null\<close>). What
  is evaluated is the value of a check box or option button, the \<^verbatim>\<open>ListIndex\<close> of a
  list box and, in the last branch, the two conditions. There errors are skipped
  (\<^verbatim>\<open>On Error Resume Next\<close>): execution goes on with the statement after the one that
  raised, which for a condition is the assignment that it guards.
\<close>

fun controlData :: "vbacontrol \<Rightarrow> string option" where
  "controlData (TextBox n t) = Some textLiteral"
| "controlData (ComboBox n t) = Some textLiteral"
| "controlData (CheckBox n v) =
     (case v of None \<Rightarrow> None | Some b \<Rightarrow> Some (boolLiteral @ (if b then ''true'' else ''false'')))"
| "controlData (OptionButton n v) =
     (case v of None \<Rightarrow> None | Some b \<Rightarrow> Some (boolLiteral @ (if b then ''true'' else ''false'')))"
| "controlData (ListBox n ListIndex items) =
     Some (if ListIndex \<ge> 0 then listLiteral else noSelectionLiteral)"
| "controlData (Label n) = Some []"
| "controlData (CommandButton n) = Some []"
| "controlData (OtherControl n v t) =
     Some (case v of
             None \<Rightarrow> valueLiteral
           | Some x \<Rightarrow>
               if x \<noteq> VEmpty then valueLiteral
               else (case t of None \<Rightarrow> textLiteral | Some s \<Rightarrow> if s \<noteq> [] then textLiteral else []))"

fun CollectFormData_loop :: "string \<Rightarrow> vbacontrol list \<Rightarrow> string option" where
  "CollectFormData_loop result [] = Some result"
| "CollectFormData_loop result (control # rest) =
     (case controlData control of
        None \<Rightarrow> None
      | Some d \<Rightarrow>
          CollectFormData_loop
            (if d \<noteq> [] then (if length result > 1 then result @ '','' else result) @ d
             else result) rest)"

definition CollectFormData :: "vbacontrol list \<Rightarrow> string" where
  "CollectFormData controls =
     (case CollectFormData_loop ''{'' controls of
        None \<Rightarrow> ''{}''
      | Some result \<Rightarrow> result @ ''}'')"

fun isLabelOrButton :: "vbacontrol \<Rightarrow> bool" where
  "isLabelOrButton (Label n) = True"
| "isLabelOrButton (CommandButton n) = True"
| "isLabelOrButton _ = False"

section \<open>Notions used in the statements\<close>

text \<open>The host accepts each of the accesses \<open>cs\<close> in the state \<open>p\<close>.\<close>

definition accepts :: "host \<Rightarrow> hostcall list \<Rightarrow> vbproject \<Rightarrow> bool" where
  "accepts h cs p = list_all (\<lambda>c. refuses h c p = None) cs"

text \<open>
  \<open>keeps c c'\<close>: the component \<open>c'\<close> is \<open>c\<close> with the same name, type and form
  properties, and with all controls of \<open>c\<close> still attached, in their places and as they
  were, perhaps followed by new ones. \<open>grows p q\<close>: the project \<open>q\<close> has the
  components of \<open>p\<close>, each kept in this sense.
\<close>

definition keeps :: "vbcomponent \<Rightarrow> vbcomponent \<Rightarrow> bool" where
  "keeps c c' =
     (compName c' = compName c \<and> compType c' = compType c
      \<and> fCaption (compDesigner c') = fCaption (compDesigner c)
      \<and> fWidth (compDesigner c') = fWidth (compDesigner c)
      \<and> fHeight (compDesigner c') = fHeight (compDesigner c)
      \<and> prefix (fControls (compDesigner c)) (fControls (compDesigner c')))"

definition grows :: "vbproject \<Rightarrow> vbproject \<Rightarrow> bool" where
  "grows p q = list_all2 keeps p q"

text \<open>
  The accesses that leave every component kept with respect to the project \<open>p0\<close>: reads,
  a new control, an assignment to a control that \<open>p0\<close> does not have yet, new code.
\<close>

fun safeCall :: "vbproject \<Rightarrow> hostcall \<Rightarrow> bool" where
  "safeCall p0 (VBComponentsAdd t) = False"
| "safeCall p0 (SetComponentName i n) = False"
| "safeCall p0 (SetCaption i s) = False"
| "safeCall p0 (SetWidth i w) = False"
| "safeCall p0 (SetHeight i w) = False"
| "safeCall p0 (SetStartUpPosition i w) = False"
| "safeCall p0 (Show i) = False"
| "safeCall p0 (SetControlName i j n) = (i < length p0 \<and> length (fControls (compDesigner (p0 ! i))) \<le> j)"
| "safeCall p0 (SetControlCaption i j n) = (i < length p0 \<and> length (fControls (compDesigner (p0 ! i))) \<le> j)"
| "safeCall p0 (SetControlLeft i j n) = (i < length p0 \<and> length (fControls (compDesigner (p0 ! i))) \<le> j)"
| "safeCall p0 (SetControlTop i j n) = (i < length p0 \<and> length (fControls (compDesigner (p0 ! i))) \<le> j)"
| "safeCall p0 (SetControlWidth i j n) = (i < length p0 \<and> length (fControls (compDesigner (p0 ! i))) \<le> j)"
| "safeCall p0 (SetControlHeight i j n) = (i < length p0 \<and> length (fControls (compDesigner (p0 ! i))) \<le> j)"
| "safeCall p0 _ = True"

text \<open>
  What the extraction loop stores for a control, and for a list of controls, when no
  access raises: the first of \<^verbatim>\<open>Value\<close>, \<^verbatim>\<open>Text\<close> and \<^verbatim>\<open>Caption\<close> that is
  defined, under the control's name.
\<close>

definition entry :: "control \<Rightarrow> (string \<times> jsval) option" where
  "entry c =
     (if cValue c \<noteq> Undefined then Some (cName c, cValue c)
      else if cText c \<noteq> Undefined then Some (cName c, cText c)
      else if cCaption c \<noteq> Undefined then Some (cName c, cCaption c)
      else None)"

fun stored :: "control list \<Rightarrow> formdata \<Rightarrow> formdata" where
  "stored [] fd = fd"
| "stored (c # cs) fd =
     (case entry c of None \<Rightarrow> stored cs fd | Some (n, v) \<Rightarrow> stored cs (fd(n \<mapsto> v)))"

text \<open>The accesses of the loop body at position \<open>k\<close> of form \<open>i\<close>.\<close>

definition bodyReads :: "nat \<Rightarrow> nat \<Rightarrow> hostcall list" where
  "bodyReads i k = [GetControlsCount i, ControlsItem i k, GetControlName i k, GetControlValue i k,
                    GetControlText i k, GetControlCaption i k]"

definition readable :: "host \<Rightarrow> vbproject \<Rightarrow> nat \<Rightarrow> nat \<Rightarrow> bool" where
  "readable h p i n = list_all (\<lambda>k. accepts h (bodyReads i k) p) [0..<n]"

text \<open>The accesses of \<^verbatim>\<open>showUserForm\<close> before the extraction loop.\<close>

definition showReads :: "string \<Rightarrow> nat \<Rightarrow> hostcall list" where
  "showReads formName i =
     [GetActiveDocument, GetVBProject, VBComponentsItem formName, GetType i, GetDesigner i, Show i]"

text \<open>How the statements look at a control: name, class and geometry.\<close>

definition view :: "control \<Rightarrow> string \<times> string option \<times> int \<times> int \<times> int \<times> int" where
  "view c = (cName c, cClassId c, cLeft c, cTop c, cWidth c, cHeight c)"

definition wanted :: "ctrl \<Rightarrow> string \<times> string option \<times> int \<times> int \<times> int \<times> int" where
  "wanted c = (ctrl_name c, controlClassMap (ctrl_type c), ctrl_left c, ctrl_top c,
               ctrl_width c, ctrl_height c)"

text \<open>
  The control that a successful \<^verbatim>\<open>addControlToUserForm\<close> leaves on a form whose
  designer was \<open>d\<close>: the host's new control with the class, the name, the caption (if one
  is given) and the geometry assigned in the order of the source. \<open>withControl\<close> is the
  project with such a control appended to the form at position \<open>i\<close>.
\<close>

definition added ::
  "host \<Rightarrow> string \<Rightarrow> string \<Rightarrow> string option \<Rightarrow> int \<Rightarrow> int \<Rightarrow> int \<Rightarrow> int \<Rightarrow> designer \<Rightarrow> control" where
  "added h controlType controlName caption left top' width height d =
     (let c0 = (newControl h (controlClassMap controlType) d)
                 \<lparr>cClassId := controlClassMap controlType\<rparr>;
          c1 = c0\<lparr>cName := controlName\<rparr>;
          c2 = (if truthy caption then c1\<lparr>cCaption := JStr (orEmpty caption)\<rparr> else c1)
      in c2\<lparr>cLeft := left, cTop := top', cWidth := width, cHeight := height\<rparr>)"

definition withControl :: "nat \<Rightarrow> control \<Rightarrow> vbproject \<Rightarrow> vbproject" where
  "withControl i c p =
     p[i := (p ! i)\<lparr>compDesigner := (compDesigner (p ! i))
              \<lparr>fControls := fControls (compDesigner (p ! i)) @ [c]\<rparr>\<rparr>]"

text \<open>
  Name, class and geometry of the two standard buttons for a width and a height:
  \<open>buttonTop = height - 60\<close>, \<open>buttonRight = width - 20\<close>, the buttons at
  \<open>buttonRight - 160\<close> and \<open>buttonRight - 80\<close>, 70 wide and 30 high.
\<close>

definition okView :: "int \<Rightarrow> int \<Rightarrow> string \<times> string option \<times> int \<times> int \<times> int \<times> int" where
  "okView width height =
     (''btnOK'', Some ''Forms.CommandButton.1'',
      Number_minus (Number_minus width 20) 160, Number_minus height 60, 70, 30)"

definition cancelView :: "int \<Rightarrow> int \<Rightarrow> string \<times> string option \<times> int \<times> int \<times> int \<times> int" where
  "cancelView width height =
     (''btnCancel'', Some ''Forms.CommandButton.1'',
      Number_minus (Number_minus width 20) 80, Number_minus height 60, 70, 30)"

text \<open>
  \<^verbatim>\<open>Number.isSafeInteger\<close>: the integers of magnitude up to \<open>2\<^sup>5\<^sup>3 - 1\<close>.
\<close>

definition isSafeInteger :: "int \<Rightarrow> bool" where
  "isSafeInteger n = (\<bar>n\<bar> \<le> 9007199254740991)"

section \<open>Sample hosts and forms\<close>

text \<open>
  Two stand-ins for the host. \<open>plainHost\<close> accepts every access. \<open>strictHost\<close>
  refuses a name that another component of the project, or another control of the form,
  already has, and refuses to create a control of an undefined class.
\<close>

definition blankControl :: control where
  "blankControl = \<lparr>cName = [], cClassId = None, cCaption = Undefined, cLeft = 0, cTop = 0,
                    cWidth = 0, cHeight = 0, cValue = Undefined, cText = Undefined\<rparr>"

definition blankComponent :: vbcomponent where
  "blankComponent = \<lparr>compName = [], compType = 0, compCode = [],
                      compDesigner = \<lparr>fCaption = [], fWidth = 0, fHeight = 0,
                                       fStartUpPosition = 0, fControls = []\<rparr>\<rparr>"

definition plainHost :: host where
  "plainHost = \<lparr>refuses = (\<lambda>c p. None), missing = (\<lambda>n. Error ''Subscript out of range''),
                 newComponent = (\<lambda>t p. blankComponent), newControl = (\<lambda>cls d. blankControl),
                 shown = (\<lambda>d. d), insertCode = (\<lambda>s code. code @ s)\<rparr>"

fun strictRefuses :: "hostcall \<Rightarrow> vbproject \<Rightarrow> error option" where
  "strictRefuses (SetComponentName i n) p =
     (if n \<in> set (map compName (take i p @ drop (Suc i) p))
      then Some (Error ''Name conflicts with existing module, project, or object library'')
      else None)"
| "strictRefuses (SetControlName i j n) p =
     (if i < length p
         \<and> n \<in> set (map cName (take j (fControls (compDesigner (p ! i)))
                              @ drop (Suc j) (fControls (compDesigner (p ! i)))))
      then Some (Error ''Could not set the Name property. Ambiguous name.'')
      else None)"
| "strictRefuses (ControlsAdd i None) p = Some (Error ''Invalid class string'')"
| "strictRefuses _ p = None"

definition strictHost :: host where
  "strictHost = plainHost\<lparr>refuses := strictRefuses\<rparr>"

definition txtName :: ctrl where
  "txtName = \<lparr>ctrl_type = ''textBox'', ctrl_name = ''txtName'', ctrl_caption = None,
               ctrl_left = 120, ctrl_top = 28, ctrl_width = 200, ctrl_height = 22\<rparr>"

definition chkAgree :: ctrl where
  "chkAgree = \<lparr>ctrl_type = ''checkBox'', ctrl_name = ''chkAgree'',
                ctrl_caption = Some ''I agree'',
                ctrl_left = 20, ctrl_top = 60, ctrl_width = 200, ctrl_height = 22\<rparr>"

definition txtEmail :: ctrl where
  "txtEmail = \<lparr>ctrl_type = ''textBox'', ctrl_name = ''txtEmail'', ctrl_caption = None,
                ctrl_left = 120, ctrl_top = 58, ctrl_width = 200, ctrl_height = 22\<rparr>"

text \<open>A project that holds the helper module and a form with the standard handlers.\<close>

definition sampleProject :: vbproject where
  "sampleProject =
     [\<lparr>compName = ''UserFormHelper'', compType = 1, compCode = vbaCode,
        compDesigner = compDesigner blankComponent\<rparr>,
      \<lparr>compName = ''ContactForm'', compType = 3, compCode = buttonCode,
        compDesigner = compDesigner blankComponent\<rparr>]"

text \<open>A project with one form, as \<^verbatim>\<open>createUserForm\<close> leaves it on \<open>plainHost\<close>.\<close>

definition oneForm :: vbproject where
  "oneForm = [\<lparr>compName = ''ContactForm'', compType = 3, compCode = [],
                compDesigner = \<lparr>fCaption = ''First'', fWidth = 400, fHeight = 300,
                                 fStartUpPosition = 1, fControls = []\<rparr>\<rparr>]"

text \<open>Arguments for the form tool, with sizes below the floor and with a repeated name.\<close>

definition tinyArgs :: rawFormArgs where
  "tinyArgs = \<lparr>raw_formName = ''ContactForm'', raw_caption = ''Contact'', raw_width = 1,
                raw_height = 1, raw_controls = [], raw_addStandardButtons = None\<rparr>"


text \<open>
  A host whose user types a name and ticks the box before the dialog closes, and the
  project that \<^verbatim>\<open>createFormWithControls\<close> builds on it from a text box, a check box
  and the standard buttons.
\<close>

definition fillIn :: "designer \<Rightarrow> designer" where
  "fillIn d =
     d\<lparr>fControls :=
          map (\<lambda>c. if cName c = ''txtName'' then c\<lparr>cValue := JStr ''Ada'', cText := JStr ''Ada''\<rparr>
                    else if cName c = ''chkAgree'' then c\<lparr>cValue := JBool True\<rparr>
                    else c) (fControls d)\<rparr>"

definition userHost :: host where
  "userHost = plainHost\<lparr>shown := fillIn\<rparr>"

definition contactProject :: vbproject where
  "contactProject =
     [\<lparr>compName = ''ContactForm'', compType = 3, compCode = buttonCode,
        compDesigner =
          \<lparr>fCaption = ''Contact'', fWidth = 400, fHeight = 300, fStartUpPosition = 1,
           fControls =
             [\<lparr>cName = ''txtName'', cClassId = Some ''Forms.TextBox.1'', cCaption = Undefined,
                cLeft = 120, cTop = 28, cWidth = 200, cHeight = 22,
                cValue = Undefined, cText = Undefined\<rparr>,
              \<lparr>cName = ''chkAgree'', cClassId = Some ''Forms.CheckBox.1'',
                cCaption = JStr ''I agree'', cLeft = 20, cTop = 60, cWidth = 200, cHeight = 22,
                cValue = Undefined, cText = Undefined\<rparr>,
              \<lparr>cName = ''btnOK'', cClassId = Some ''Forms.CommandButton.1'',
                cCaption = JStr ''OK'', cLeft = 220, cTop = 240, cWidth = 70, cHeight = 30,
                cValue = Undefined, cText = Undefined\<rparr>,
              \<lparr>cName = ''btnCancel'', cClassId = Some ''Forms.CommandButton.1'',
                cCaption = JStr ''Cancel'', cLeft = 300, cTop = 240, cWidth = 70, cHeight = 30,
                cValue = Undefined, cText = Undefined\<rparr>]\<rparr>\<rparr>]"

definition shownData :: formdata where
  "shownData = [''txtName'' \<mapsto> JStr ''Ada'', ''chkAgree'' \<mapsto> JBool True,
                ''btnOK'' \<mapsto> JStr ''OK'', ''btnCancel'' \<mapsto> JStr ''Cancel'']"

text \<open>
  A form with three filled text boxes, and a host on which reading the value of the second
  control raises.
\<close>

definition filled :: "string \<Rightarrow> string \<Rightarrow> control" where
  "filled n v = blankControl\<lparr>cName := n, cClassId := Some ''Forms.TextBox.1'',
                              cValue := JStr v, cText := JStr v\<rparr>"

definition threeFields :: vbproject where
  "threeFields =
     [\<lparr>compName = ''ContactForm'', compType = 3, compCode = [],
        compDesigner =
          \<lparr>fCaption = ''Contact'', fWidth = 400, fHeight = 300, fStartUpPosition = 1,
           fControls = [filled ''txtName'' ''Ada'', filled ''txtEmail'' ''ada@example.org'',
                        filled ''txtCompany'' ''Analytical Engines'']\<rparr>\<rparr>]"

definition faultyHost :: host where
  "faultyHost =
     plainHost\<lparr>refuses := (\<lambda>c p. if c = GetControlValue 0 1
                                  then Some (Error ''Could not get the Value property'')
                                  else None)\<rparr>"

text \<open>The controls of a form as the generated \<^verbatim>\<open>CollectFormData\<close> sees them.\<close>

definition vbaControls :: "vbacontrol list" where
  "vbaControls = [Label ''lblName'', TextBox ''txtName'' ''Ada'', CheckBox ''chkAgree'' (Some True),
                  CommandButton ''btnOK'', CommandButton ''btnCancel'']"

text \<open>
  The project with the one form \<open>ContactForm\<close> and the given controls; a text box
  named \<open>txtEmail\<close> as \<^verbatim>\<open>addControlToUserForm\<close> leaves it; a text box that was
  created but never named; the error of the refused second \<open>txtEmail\<close>.
\<close>

definition formWith :: "control list \<Rightarrow> vbproject" where
  "formWith cs =
     [\<lparr>compName = ''ContactForm'', compType = 3, compCode = [],
        compDesigner = \<lparr>fCaption = ''Contact'', fWidth = 400, fHeight = 300,
                         fStartUpPosition = 1, fControls = cs\<rparr>\<rparr>]"

definition emailBox :: control where
  "emailBox = blankControl\<lparr>cName := ''txtEmail'', cClassId := Some ''Forms.TextBox.1'',
                             cLeft := 120, cTop := 58, cWidth := 200, cHeight := 22\<rparr>"

definition unnamedBox :: control where
  "unnamedBox = blankControl\<lparr>cClassId := Some ''Forms.TextBox.1''\<rparr>"

definition duplicateNameError :: error where
  "duplicateNameError =
     Error (''Failed to add control to UserForm '' @ quoted ''ContactForm''
            @ ''. Error: Error: Could not set the Name property. Ambiguous name.'')"

section \<open>Properties\<close>

subsection \<open>Strings and runs of accesses\<close>

text \<open>\<open>str_includes\<close> is the substring test.\<close>

lemma take_length_eq_iff: "take (length t) s = t \<longleftrightarrow> (\<exists>b. s = t @ b)"
proof
  assume "take (length t) s = t"
  then have "s = t @ drop (length t) s" by (metis append_take_drop_id)
  then show "\<exists>b. s = t @ b" ..
next
  assume "\<exists>b. s = t @ b"
  then show "take (length t) s = t" by auto
qed

lemma str_includes_iff: "str_includes s t \<longleftrightarrow> (\<exists>a b. s = a @ t @ b)"
proof (induction s)
  case Nil
  show ?case by auto
next
  case (Cons c cs)
  have "(\<exists>a b. c # cs = a @ t @ b) \<longleftrightarrow> (\<exists>b. c # cs = t @ b) \<or> (\<exists>a b. cs = a @ t @ b)"
  proof
    assume "\<exists>a b. c # cs = a @ t @ b"
    then obtain a b where ab: "c # cs = a @ t @ b" by blast
    show "(\<exists>b. c # cs = t @ b) \<or> (\<exists>a b. cs = a @ t @ b)"
    proof (cases a)
      case Nil
      with ab show ?thesis by auto
    next
      case (Cons x a')
      with ab have "cs = a' @ t @ b" by simp
      then show ?thesis by blast
    qed
  next
    assume "(\<exists>b. c # cs = t @ b) \<or> (\<exists>a b. cs = a @ t @ b)"
    then show "\<exists>a b. c # cs = a @ t @ b"
    proof
      assume "\<exists>b. c # cs = t @ b"
      then obtain b where "c # cs = [] @ t @ b" by auto
      then show ?thesis by blast
    next
      assume "\<exists>a b. cs = a @ t @ b"
      then obtain a b where "c # cs = (c # a) @ t @ b" by auto
      then show ?thesis by blast
    qed
  qed
  with Cons show ?case by (simp add: take_length_eq_iff del: take_Suc_Cons)
qed

lemma runSteps_Inr:
  "runSteps h cs p = (Inr u, q) \<Longrightarrow> q = fold (effect h) cs p"
  by (induction cs arbitrary: p) (auto split: option.splits)

lemma runSteps_plain:
  "\<forall>c s. refuses h c s = None \<Longrightarrow> runSteps h cs p = (Inr (), fold (effect h) cs p)"
  by (induction cs arbitrary: p) auto

lemma runSteps_reads:
  "\<forall>c\<in>set cs. \<forall>s. effect h c s = s \<Longrightarrow> snd (runSteps h cs p) = p"
  by (induction cs arbitrary: p) (auto split: option.splits)

lemma str_includes_appendR: "str_includes b t \<Longrightarrow> str_includes (a @ b) t"
  unfolding str_includes_iff by (metis append.assoc)

lemma str_includes_appendL: "str_includes a t \<Longrightarrow> str_includes (a @ b) t"
  unfolding str_includes_iff by (metis append.assoc)

lemma vbaCode_marker: "str_includes vbaCode ''Function ShowUserFormModal''"
  unfolding vbaCode_def
  apply (rule str_includes_appendR)
  apply (rule str_includes_appendR)
  apply (rule str_includes_appendR)
  apply (rule str_includes_appendR)
  apply (rule str_includes_appendL)
  apply simp
  done

lemma buttonCode_marker: "str_includes buttonCode ''btnOK_Click''"
  unfolding buttonCode_def
  apply (rule str_includes_appendR)
  apply (rule str_includes_appendR)
  apply (rule str_includes_appendR)
  apply (rule str_includes_appendR)
  apply (rule str_includes_appendR)
  apply (rule str_includes_appendL)
  apply simp
  done


subsection \<open>Injection of the helper code\<close>

text \<open>
  Claim C10. The two operations that inject VBA code do nothing when the code is already
  there: if the module \<^verbatim>\<open>UserFormHelper\<close> exists and its code contains
  \<^verbatim>\<open>Function ShowUserFormModal\<close>, then \<^verbatim>\<open>createShowUserFormModalFunction\<close>
  returns successfully and leaves the project, and so the module's code, unchanged; if the
  form's code module contains \<^verbatim>\<open>btnOK_Click\<close>, then
  \<^verbatim>\<open>addStandardFormEventHandlers\<close> returns successfully and leaves the project unchanged.
  The host is assumed to accept the reads that lead to the check.
\<close>

theorem helper_injection_idempotent:
  "(findComponent ''UserFormHelper'' p = Some i
      \<and> str_includes (compCode (p ! i)) ''Function ShowUserFormModal''
      \<and> accepts h [GetActiveDocument, GetVBProject, VBComponentsItem ''UserFormHelper'',
                    GetCodeModule i, GetCountOfLines i, GetLines i] p
     \<longrightarrow> createShowUserFormModalFunction h p = (Inr (), p))
   \<and> (findComponent formName p = Some j \<and> compType (p ! j) = 3
      \<and> str_includes (compCode (p ! j)) ''btnOK_Click''
      \<and> accepts h [GetActiveDocument, GetVBProject, VBComponentsItem formName, GetType j,
                    GetCodeModule j, GetCountOfLines j, GetLines j] p
     \<longrightarrow> addStandardFormEventHandlers h formName p = (Inr (), p))"
  by (simp add: createShowUserFormModalFunction_def createShowUserFormModalFunction_try_def
        helperModule_def item_def accepts_def rethrow_def
        addStandardFormEventHandlers_def addStandardFormEventHandlers_try_def)

theorem helper_injection_idempotent_witness:
  "findComponent ''UserFormHelper'' sampleProject = Some 0
   \<and> str_includes (compCode (sampleProject ! 0)) ''Function ShowUserFormModal''
   \<and> createShowUserFormModalFunction plainHost sampleProject = (Inr (), sampleProject)
   \<and> findComponent ''ContactForm'' sampleProject = Some 1
   \<and> str_includes (compCode (sampleProject ! 1)) ''btnOK_Click''
   \<and> addStandardFormEventHandlers plainHost ''ContactForm'' sampleProject
       = (Inr (), sampleProject)"
  using helper_injection_idempotent [of sampleProject 0 plainHost "''ContactForm''" 1]
        vbaCode_marker buttonCode_marker
  by (simp add: sampleProject_def plainHost_def accepts_def)

subsection \<open>What the operations on an existing form keep\<close>

text \<open>
  Adding a control and adding the event handlers keep every component of the project:
  names, types, form properties and the controls that are already attached.
\<close>

lemma keeps_refl: "keeps c c"
  by (simp add: keeps_def)

lemma keeps_trans: "keeps a b \<Longrightarrow> keeps b c \<Longrightarrow> keeps a c"
  by (auto simp: keeps_def)

lemma grows_refl: "grows p p"
  by (simp add: grows_def list_all2_refl keeps_refl)

lemma grows_trans: "grows p q \<Longrightarrow> grows q r \<Longrightarrow> grows p r"
  unfolding grows_def
  using list_all2_trans[of keeps keeps keeps p q r] keeps_trans by blast

lemma grows_length: "grows p q \<Longrightarrow> length q = length p"
  by (simp add: grows_def list_all2_lengthD)

lemma grows_nth: "grows p q \<Longrightarrow> i < length p \<Longrightarrow> keeps (p ! i) (q ! i)"
  by (simp add: grows_def list_all2_nthD)

lemma prefix_update: "prefix xs ys \<Longrightarrow> length xs \<le> j \<Longrightarrow> prefix xs (ys[j := y])"
  by (auto simp: prefix_def list_update_append)

lemma grows_onComponent:
  assumes "grows p0 s" and "\<And>c. keeps (p0 ! i) c \<Longrightarrow> keeps (p0 ! i) (g c)"
  shows "grows p0 (onComponent i g s)"
proof -
  have len: "length s = length p0" using assms(1) by (rule grows_length)
  have nth: "\<And>k. k < length p0 \<Longrightarrow> keeps (p0 ! k) (s ! k)"
    using assms(1) by (rule grows_nth)
  show ?thesis
    unfolding grows_def onComponent_def
    using len nth assms(2)
    by (auto simp: list_all2_conv_all_nth nth_list_update)
qed

lemma effect_safe:
  assumes "grows p0 s" and "safeCall p0 c"
  shows "grows p0 (effect h c s)"
proof (cases c)
  case (ControlsAdd i cls)
  show ?thesis unfolding ControlsAdd effect.simps onDesigner_def
    by (rule grows_onComponent[OF assms(1)]) (auto simp: keeps_def)
next
  case (SetControlName i j n)
  show ?thesis using assms(2) unfolding SetControlName effect.simps onControl_def onDesigner_def
    by (intro grows_onComponent[OF assms(1)]) (auto simp: keeps_def prefix_update)
next
  case (SetControlCaption i j n)
  show ?thesis using assms(2) unfolding SetControlCaption effect.simps onControl_def onDesigner_def
    by (intro grows_onComponent[OF assms(1)]) (auto simp: keeps_def prefix_update)
next
  case (SetControlLeft i j n)
  show ?thesis using assms(2) unfolding SetControlLeft effect.simps onControl_def onDesigner_def
    by (intro grows_onComponent[OF assms(1)]) (auto simp: keeps_def prefix_update)
next
  case (SetControlTop i j n)
  show ?thesis using assms(2) unfolding SetControlTop effect.simps onControl_def onDesigner_def
    by (intro grows_onComponent[OF assms(1)]) (auto simp: keeps_def prefix_update)
next
  case (SetControlWidth i j n)
  show ?thesis using assms(2) unfolding SetControlWidth effect.simps onControl_def onDesigner_def
    by (intro grows_onComponent[OF assms(1)]) (auto simp: keeps_def prefix_update)
next
  case (SetControlHeight i j n)
  show ?thesis using assms(2) unfolding SetControlHeight effect.simps onControl_def onDesigner_def
    by (intro grows_onComponent[OF assms(1)]) (auto simp: keeps_def prefix_update)
next
  case (AddFromString i t)
  show ?thesis unfolding AddFromString effect.simps
    by (rule grows_onComponent[OF assms(1)]) (auto simp: keeps_def)
qed (use assms in auto)

lemma runSteps_safe:
  "grows p0 s \<Longrightarrow> \<forall>c\<in>set cs. safeCall p0 c \<Longrightarrow> grows p0 (snd (runSteps h cs s))"
  by (induction cs arbitrary: s) (auto split: option.splits intro: effect_safe)

lemma findComponent_less: "findComponent n p = Some i \<Longrightarrow> i < length p"
  by (induction p arbitrary: i) (auto split: if_splits)

lemma findComponent_name: "findComponent n p = Some i \<Longrightarrow> compName (p ! i) = n"
  by (induction p arbitrary: i) (auto split: if_splits)

lemma item_less: "item h n p = Inr i \<Longrightarrow> i < length p"
  by (auto simp: item_def findComponent_less split: option.splits)

lemma rethrow_snd [simp]: "snd (rethrow m r) = snd r"
  by (simp add: rethrow_def split: sum.splits)

lemma runSteps_grows_self:
  "\<forall>c\<in>set cs. safeCall p c \<Longrightarrow> grows p (snd (runSteps h cs p))"
  by (rule runSteps_safe) (simp_all add: grows_refl)

lemma addControlToUserForm_try_grows:
  "grows p (snd (addControlToUserForm_try h f ty n cap l t w hh p))"
proof (cases "item h f p")
  case (Inl e)
  then show ?thesis
    by (simp add: addControlToUserForm_try_def grows_refl split: option.splits)
next
  case (Inr i)
  then have i: "i < length p" by (rule item_less)
  have "grows p (snd (runSteps h (controlSteps i (length (fControls (compDesigner (p ! i))))
                         ty n cap l t w hh) p))"
    by (rule runSteps_grows_self) (simp add: controlSteps_def i)
  then show ?thesis using Inr
    by (simp add: addControlToUserForm_try_def grows_refl split: option.splits)
qed

lemma addControlToUserForm_grows:
  "grows p (snd (addControlToUserForm h f ty n cap l t w hh p))"
  using addControlToUserForm_try_grows[of p h f ty n cap l t w hh]
  by (simp add: addControlToUserForm_def grows_refl split: option.splits)

lemma addStandardFormEventHandlers_try_grows:
  "grows p (snd (addStandardFormEventHandlers_try h f p))"
proof (cases "item h f p")
  case (Inl e)
  then show ?thesis
    by (simp add: addStandardFormEventHandlers_try_def grows_refl split: option.splits)
next
  case (Inr i)
  let ?r = "runSteps h [GetCodeModule i, GetCountOfLines i, GetLines i] p"
  have a: "snd ?r = p"
    by (rule runSteps_reads) auto
  have b: "grows p (snd (runSteps h [AddFromString i buttonCode] p))"
    by (rule runSteps_grows_self) simp
  show ?thesis
  proof (cases "fst ?r")
    case (Inl e)
    then show ?thesis using Inr a
      by (cases ?r)
         (simp add: addStandardFormEventHandlers_try_def grows_refl
               del: runSteps.simps split: option.splits)
  next
    case r: (Inr u)
    then show ?thesis using Inr a b
      by (cases ?r)
         (simp add: addStandardFormEventHandlers_try_def grows_refl
               del: runSteps.simps split: option.splits)
  qed
qed

lemma addStandardFormEventHandlers_grows:
  "grows p (snd (addStandardFormEventHandlers h f p))"
  using addStandardFormEventHandlers_try_grows[of p h f]
  by (simp add: addStandardFormEventHandlers_def grows_refl split: option.splits)

lemma addControls_grows: "grows p (snd (addControls h f cs p))"
proof (induction cs arbitrary: p)
  case Nil
  show ?case by (simp add: grows_refl)
next
  case (Cons c cs)
  let ?r = "addControlToUserForm h f (ctrl_type c) (ctrl_name c) (Some (orEmpty (ctrl_caption c)))
             (ctrl_left c) (ctrl_top c) (ctrl_width c) (ctrl_height c) p"
  have g: "grows p (snd ?r)" by (rule addControlToUserForm_grows)
  show ?case
  proof (cases "fst ?r")
    case (Inl e)
    then show ?thesis using g by (cases ?r) simp
  next
    case (Inr u)
    then show ?thesis using g Cons.IH[of "snd ?r"]
      by (cases ?r) (auto intro: grows_trans)
  qed
qed

lemma addButtons_grows: "grows p (snd (addButtons h f w ht p))"
proof -
  let ?r1 = "addControlToUserForm h f ''commandButton'' ''btnOK'' (Some ''OK'')
               (Number_minus (Number_minus w 20) 160) (Number_minus ht 60) 70 30 p"
  let ?r2 = "addControlToUserForm h f ''commandButton'' ''btnCancel'' (Some ''Cancel'')
               (Number_minus (Number_minus w 20) 80) (Number_minus ht 60) 70 30 (snd ?r1)"
  have g1: "grows p (snd ?r1)" by (rule addControlToUserForm_grows)
  have g2: "grows p (snd ?r2)"
    using g1 addControlToUserForm_grows by (rule grows_trans)
  have g3: "grows p (snd (addStandardFormEventHandlers h f (snd ?r2)))"
    using g2 addStandardFormEventHandlers_grows by (rule grows_trans)
  show ?thesis
    unfolding addButtons_def Let_def
    using g1 g2 g3
    by (cases ?r1; cases ?r2) (auto split: sum.splits)
qed

subsection \<open>createUserForm\<close>

lemma createUserForm_try_shape:
  "snd (createUserForm_try h f cap w ht p) = p
   \<or> (\<exists>c. snd (createUserForm_try h f cap w ht p) = p @ [c])"
  by (auto simp: createUserForm_try_def Let_def onDesigner_def onComponent_def
           split: option.splits)

lemma createUserForm_shape:
  "snd (createUserForm h f cap w ht p) = p
   \<or> (\<exists>c. snd (createUserForm h f cap w ht p) = p @ [c])"
  using createUserForm_try_shape[of h f cap w ht p]
  by (auto simp: createUserForm_def split: option.splits)

lemma createUserForm_take: "take (length p) (snd (createUserForm h f cap w ht p)) = p"
  using createUserForm_shape[of h f cap w ht p] by auto

lemma createUserForm_try_Inr:
  assumes "createUserForm_try h f cap w ht p = (Inr u, q)"
  shows "length q = Suc (length p) \<and> compName (q ! length p) = f
         \<and> compType (q ! length p) = 3 \<and> fControls (compDesigner (q ! length p)) = []"
  using assms
  by (auto simp: createUserForm_try_def Let_def onDesigner_def onComponent_def nth_append
           split: option.splits if_splits)

lemma rethrow_Inr: "rethrow m r = (Inr u, q) \<longleftrightarrow> r = (Inr u, q)"
  by (cases r) (auto simp: rethrow_def split: sum.splits)

lemma createUserForm_Inr:
  assumes "createUserForm h f cap w ht p = (Inr u, q)"
  shows "length q = Suc (length p) \<and> compName (q ! length p) = f
         \<and> compType (q ! length p) = 3 \<and> fControls (compDesigner (q ! length p)) = []"
  using assms createUserForm_try_Inr[of h f cap w ht p u q]
  by (auto simp: createUserForm_def rethrow_Inr split: option.splits)

lemma createUserForm_size:
  assumes "createUserForm h f cap w ht p = (Inr u, q)"
      and "\<forall>s. refuses h (SetWidth (length p) (max w 300)) s = None"
      and "\<forall>s. refuses h (SetHeight (length p) (max ht 200)) s = None"
  shows "fWidth (compDesigner (q ! length p)) = max w 300
         \<and> fHeight (compDesigner (q ! length p)) = max ht 200"
proof -
  have "createUserForm_try h f cap w ht p = (Inr u, q)"
    using assms(1) by (auto simp: createUserForm_def rethrow_Inr split: option.splits)
  then show ?thesis using assms(2,3)
    by (auto simp: createUserForm_try_def Let_def onDesigner_def onComponent_def nth_append
             split: option.splits if_splits)
qed

text \<open>The definitions that a run on a sample host unfolds.\<close>

lemmas run_defs =
  createUserForm_def createUserForm_try_def rethrow_def onDesigner_def onControl_def
  onComponent_def addControlToUserForm_def addControlToUserForm_try_def controlSteps_def
  item_def createFormWithControls_def createFormWithControls_try_def addButtons_def
  addStandardFormEventHandlers_def addStandardFormEventHandlers_try_def
  plainHost_def strictHost_def blankComponent_def blankControl_def quoted_def accepts_def
  Number_minus_def roundNumber_def

text \<open>
  Claim C6, as amended. \<^verbatim>\<open>createUserForm\<close> has no check for an existing form of the
  same name: it adds a component and then assigns the name. Whatever happens, the components
  that were in the project before the call, the first form among them, are left as they
  were. A second creation under the same name fails only if the host refuses the name; the
  error is then the general \<^verbatim>\<open>Failed to create UserForm\<close> error, and the component
  that the call had added stays in the project. On a host that refuses nothing the call
  succeeds.
\<close>

theorem createUserForm_adds_without_check:
  "take (length p) (snd (createUserForm h formName caption width height p)) = p
   \<and> (accepts h [GetActiveDocument, GetVBProject, VBComponentsAdd 3] p
        \<and> refuses h (SetComponentName (length p) formName) (effect h (VBComponentsAdd 3) p)
            = Some e
       \<longrightarrow> createUserForm h formName caption width height p
            = (Inl (Error (''Failed to create UserForm '' @ quoted formName @ ''. Error: ''
                           @ String_error e)),
               effect h (VBComponentsAdd 3) p))
   \<and> ((\<forall>c s. refuses h c s = None)
       \<longrightarrow> fst (createUserForm h formName caption width height p) = Inr ())"
proof (intro conjI impI)
  show "take (length p) (snd (createUserForm h formName caption width height p)) = p"
    by (rule createUserForm_take)
next
  assume "accepts h [GetActiveDocument, GetVBProject, VBComponentsAdd 3] p
          \<and> refuses h (SetComponentName (length p) formName) (effect h (VBComponentsAdd 3) p)
              = Some e"
  then show "createUserForm h formName caption width height p
            = (Inl (Error (''Failed to create UserForm '' @ quoted formName @ ''. Error: ''
                           @ String_error e)),
               effect h (VBComponentsAdd 3) p)"
    by (simp add: createUserForm_def createUserForm_try_def rethrow_def accepts_def)
next
  assume "\<forall>c s. refuses h c s = None"
  then show "fst (createUserForm h formName caption width height p) = Inr ()"
    by (simp add: createUserForm_def createUserForm_try_def rethrow_def Let_def)
qed

theorem createUserForm_adds_without_check_witness:
  "createUserForm strictHost ''ContactForm'' (Some ''Second'') 400 300 oneForm
     = (Inl (Error (''Failed to create UserForm '' @ quoted ''ContactForm'' @ ''. Error: ''
                    @ ''Error: Name conflicts with existing module, project, or object library'')),
        oneForm @ [blankComponent\<lparr>compType := 3\<rparr>])
   \<and> fst (createUserForm plainHost ''ContactForm'' (Some ''Second'') 400 300 oneForm) = Inr ()"
  using createUserForm_adds_without_check
          [of oneForm strictHost "''ContactForm''" "Some ''Second''" 400 300
              "Error ''Name conflicts with existing module, project, or object library''"]
        createUserForm_adds_without_check
          [of oneForm plainHost "''ContactForm''" "Some ''Second''" 400 300]
  by (simp add: oneForm_def strictHost_def plainHost_def accepts_def blankComponent_def)

text \<open>
  Claim C6 as it was stated, with a second creation that always fails, does not hold: on a
  host that accepts the name, a second creation under the name of an existing form
  succeeds, and the project then holds two forms of that name.
\<close>

theorem second_createUserForm_counterexample:
  "createUserForm plainHost ''ContactForm'' (Some ''First'') 400 300 [] = (Inr (), oneForm)
   \<and> fst (createUserForm plainHost ''ContactForm'' (Some ''Second'') 400 300 oneForm) = Inr ()
   \<and> map compName (snd (createUserForm plainHost ''ContactForm'' (Some ''Second'') 400 300 oneForm))
       = [''ContactForm'', ''ContactForm'']"
  by (simp add: run_defs oneForm_def)

subsection \<open>The size of a new form\<close>

lemma createFormWithControls_Inr:
  assumes "createFormWithControls h f cap w ht cs b p = (Inr u, q)"
  shows "\<exists>p1. createUserForm h f (Some cap) w ht p = (Inr (), p1) \<and> grows p1 q"
proof -
  have t: "createFormWithControls_try h f cap w ht cs b p = (Inr u, q)"
    using assms by (auto simp: createFormWithControls_def rethrow_Inr split: option.splits)
  obtain r1 p1 where c: "createUserForm h f (Some cap) w ht p = (r1, p1)" by fastforce
  obtain r2 p2 where a: "addControls h f cs p1 = (r2, p2)" by fastforce
  have g2: "grows p1 p2" using addControls_grows[of p1 h f cs] a by simp
  have g3: "grows p2 (snd (addButtons h f w ht p2))" by (rule addButtons_grows)
  from t c a have "r1 = Inr () \<and> grows p1 q"
    using g2 g3
    by (cases r1; cases r2; cases b)
       (auto simp: createFormWithControls_try_def intro: grows_trans)
  with c show ?thesis by blast
qed

text \<open>
  Claim C4, as amended. In \<^verbatim>\<open>createUserForm\<close>, and in \<^verbatim>\<open>createFormWithControls\<close>
  which calls it, a width below 300 is raised to 300 and a height below 200 to 200, each
  on its own (the form gets \<open>max width 300\<close> and \<open>max height 200\<close>), provided the host
  accepts the two assignments. The tool \<^verbatim>\<open>word_userform_createWithControls\<close> is
  registered behind a schema that rejects such a width or height, so there the input is
  refused before the service is called and the project is left as it was.
\<close>

theorem form_size_floor:
  "(createUserForm h formName caption width height p = (Inr (), q)
      \<and> (\<forall>s. refuses h (SetWidth (length p) (max width 300)) s = None)
      \<and> (\<forall>s. refuses h (SetHeight (length p) (max height 200)) s = None)
     \<longrightarrow> fWidth (compDesigner (q ! length p)) = max width 300
         \<and> fHeight (compDesigner (q ! length p)) = max height 200
         \<and> (width < 300 \<longrightarrow> fWidth (compDesigner (q ! length p)) = 300)
         \<and> (height < 200 \<longrightarrow> fHeight (compDesigner (q ! length p)) = 200))
   \<and> (createFormWithControls h formName caption' width height controls addStandardButtons p
        = (Inr (), q')
      \<and> (\<forall>s. refuses h (SetWidth (length p) (max width 300)) s = None)
      \<and> (\<forall>s. refuses h (SetHeight (length p) (max height 200)) s = None)
     \<longrightarrow> fWidth (compDesigner (q' ! length p)) = max width 300
         \<and> fHeight (compDesigner (q' ! length p)) = max height 200)
   \<and> (raw_width a < 300 \<or> raw_height a < 200
     \<longrightarrow> (\<exists>issues. word_userform_createWithControls h a p = (Inl issues, p)))"
proof (intro conjI impI)
  assume h1: "createUserForm h formName caption width height p = (Inr (), q)
      \<and> (\<forall>s. refuses h (SetWidth (length p) (max width 300)) s = None)
      \<and> (\<forall>s. refuses h (SetHeight (length p) (max height 200)) s = None)"
  then have s: "fWidth (compDesigner (q ! length p)) = max width 300
         \<and> fHeight (compDesigner (q ! length p)) = max height 200"
    using createUserForm_size[of h formName caption width height p "()" q] by blast
  from s show "fWidth (compDesigner (q ! length p)) = max width 300" by simp
  from s show "fHeight (compDesigner (q ! length p)) = max height 200" by simp
  { assume "width < 300" with s show "fWidth (compDesigner (q ! length p)) = 300" by simp }
  { assume "height < 200" with s show "fHeight (compDesigner (q ! length p)) = 200" by simp }
next
  assume h2: "createFormWithControls h formName caption' width height controls addStandardButtons p
        = (Inr (), q')
      \<and> (\<forall>s. refuses h (SetWidth (length p) (max width 300)) s = None)
      \<and> (\<forall>s. refuses h (SetHeight (length p) (max height 200)) s = None)"
  then obtain p1 where c: "createUserForm h formName (Some caption') width height p = (Inr (), p1)"
      and g: "grows p1 q'"
    using createFormWithControls_Inr by blast
  have l: "length p1 = Suc (length p)" using createUserForm_Inr[OF c] by simp
  have k: "keeps (p1 ! length p) (q' ! length p)" using g l by (simp add: grows_nth)
  have s: "fWidth (compDesigner (p1 ! length p)) = max width 300
         \<and> fHeight (compDesigner (p1 ! length p)) = max height 200"
    using createUserForm_size[OF c] h2 by blast
  from k s show "fWidth (compDesigner (q' ! length p)) = max width 300" by (simp add: keeps_def)
  from k s show "fHeight (compDesigner (q' ! length p)) = max height 200" by (simp add: keeps_def)
next
  assume "raw_width a < 300 \<or> raw_height a < 200"
  then have "schemaIssues a \<noteq> []" by (auto simp: schemaIssues_def)
  then show "\<exists>issues. word_userform_createWithControls h a p = (Inl issues, p)"
    by (simp add: word_userform_createWithControls_def createFormWithControlsSchema_def)
qed

theorem form_size_floor_witness:
  "fst (createUserForm plainHost ''ContactForm'' None 1 1 []) = Inr ()
   \<and> fWidth (compDesigner (snd (createUserForm plainHost ''ContactForm'' None 1 1 []) ! 0)) = 300
   \<and> fHeight (compDesigner (snd (createUserForm plainHost ''ContactForm'' None 1 1 []) ! 0)) = 200
   \<and> fst (createFormWithControls plainHost ''ContactForm'' ''Contact'' 1 1 [txtName] True [])
       = Inr ()
   \<and> fWidth (compDesigner
        (snd (createFormWithControls plainHost ''ContactForm'' ''Contact'' 1 1 [txtName] True [])
           ! 0)) = 300
   \<and> fHeight (compDesigner
        (snd (createFormWithControls plainHost ''ContactForm'' ''Contact'' 1 1 [txtName] True [])
           ! 0)) = 200
   \<and> (\<exists>issues. word_userform_createWithControls plainHost tinyArgs [] = (Inl issues, []))"
proof -
  obtain q where q: "createUserForm plainHost ''ContactForm'' None 1 1 [] = (Inr (), q)"
    by (simp add: run_defs)
  obtain q' where q': "createFormWithControls plainHost ''ContactForm'' ''Contact'' 1 1 [txtName] True []
                        = (Inr (), q')"
    by (simp add: run_defs txtName_def buttonCode_def)
  have a: "\<forall>s. refuses plainHost (SetWidth (length ([]::vbproject)) (max 1 300)) s = None"
    by (simp add: plainHost_def)
  have b: "\<forall>s. refuses plainHost (SetHeight (length ([]::vbproject)) (max 1 200)) s = None"
    by (simp add: plainHost_def)
  have t: "raw_width tinyArgs < 300 \<or> raw_height tinyArgs < 200" by (simp add: tinyArgs_def)
  show ?thesis
    using form_size_floor[of plainHost "''ContactForm''" None 1 1 "[]" q "''Contact''"
                             "[txtName]" True q' tinyArgs]
          q q' a b t
    by simp
qed

text \<open>
  Claim C4 as it was stated, with sizes that are never rejected, does not hold: the input
  \<open>(1, 1)\<close> to the tool is rejected with two issues, not raised to \<open>(300, 200)\<close>.
\<close>

theorem schema_rejects_small_size_counterexample:
  "word_userform_createWithControls plainHost tinyArgs []
     = (Inl [TooSmall ''width'' 300, TooSmall ''height'' 200], [])"
  by (simp add: word_userform_createWithControls_def createFormWithControlsSchema_def
        schemaIssues_def tinyArgs_def)

subsection \<open>The tool handlers\<close>











subsection \<open>The extraction loop\<close>

lemma entry_name: "entry c = Some (n, v) \<Longrightarrow> n = cName c"
  by (auto simp: entry_def split: if_splits)

lemma extractControl_Inr: "extractControl h p i k c = Inr r \<Longrightarrow> r = entry c"
  by (auto simp: extractControl_def entry_def split: option.splits if_splits sum.splits)

lemma extractControl_accepts:
  "accepts h (bodyReads i k) p \<Longrightarrow> extractControl h p i k c = Inr (entry c)"
  by (simp add: extractControl_def entry_def accepts_def bodyReads_def)

lemma collect_refused:
  "refuses h (GetControlsCount i) p = Some e \<Longrightarrow> collect h p i k cs fd = (Some e, fd)"
  by (cases cs) simp_all

lemma collect_Inl:
  "refuses h (GetControlsCount i) p = None \<Longrightarrow> extractControl h p i k c = Inl e
   \<Longrightarrow> collect h p i k (c # cs) fd = (Some e, fd)"
  by simp

lemma collect_None:
  "refuses h (GetControlsCount i) p = None \<Longrightarrow> extractControl h p i k c = Inr None
   \<Longrightarrow> collect h p i k (c # cs) fd = collect h p i (Suc k) cs fd"
  by simp

lemma collect_Some:
  "refuses h (GetControlsCount i) p = None \<Longrightarrow> extractControl h p i k c = Inr (Some (n, v))
   \<Longrightarrow> collect h p i k (c # cs) fd = collect h p i (Suc k) cs (fd(n \<mapsto> v))"
  by simp

lemma stored_None: "entry c = None \<Longrightarrow> stored (c # cs) fd = stored cs fd"
  by simp

lemma stored_Some: "entry c = Some (n, v) \<Longrightarrow> stored (c # cs) fd = stored cs (fd(n \<mapsto> v))"
  by simp

lemma collect_dom: "dom (snd (collect h p i k cs fd)) \<subseteq> dom fd \<union> cName ` set cs"
proof (induction cs arbitrary: k fd)
  case Nil
  show ?case by (simp split: option.splits)
next
  case (Cons c cs)
  show ?case
  proof (cases "refuses h (GetControlsCount i) p")
    case (Some e)
    then show ?thesis by (auto simp add: collect_refused simp del: collect.simps)
  next
    case None
    show ?thesis
    proof (cases "extractControl h p i k c")
      case (Inl e)
      with None show ?thesis by (auto simp add: collect_Inl simp del: collect.simps)
    next
      case (Inr r)
      then have r: "r = entry c" by (rule extractControl_Inr)
      show ?thesis
      proof (cases "entry c")
        case None': None
        have "collect h p i k (c # cs) fd = collect h p i (Suc k) cs fd"
          using None Inr r None' by (simp only: collect_None)
        moreover have "dom (snd (collect h p i (Suc k) cs fd)) \<subseteq> dom fd \<union> cName ` set cs"
      by (rule Cons.IH)
    ultimately show ?thesis by auto
      next
        case (Some nv)
        obtain n v where nv: "nv = (n, v)" by (cases nv)
        have n: "n = cName c" using Some nv entry_name by metis
        have "collect h p i k (c # cs) fd = collect h p i (Suc k) cs (fd(n \<mapsto> v))"
          using None Inr r Some nv by (simp only: collect_Some)
        moreover have "dom (snd (collect h p i (Suc k) cs (fd(n \<mapsto> v))))
                        \<subseteq> dom (fd(n \<mapsto> v)) \<union> cName ` set cs"
          by (rule Cons.IH)
        ultimately show ?thesis using n by auto
      qed
    qed
  qed
qed

lemma collect_accepts:
  "\<forall>j<length cs. accepts h (bodyReads i (k + j)) p \<Longrightarrow> snd (collect h p i k cs fd) = stored cs fd"
proof (induction cs arbitrary: k fd)
  case Nil
  show ?case by (simp split: option.splits)
next
  case (Cons c cs)
  have a0: "accepts h (bodyReads i k) p" using Cons.prems by force
  then have cnt: "refuses h (GetControlsCount i) p = None"
    by (simp add: accepts_def bodyReads_def)
  have ex: "extractControl h p i k c = Inr (entry c)" using a0 by (rule extractControl_accepts)
  have rest: "\<forall>j<length cs. accepts h (bodyReads i (Suc k + j)) p"
    using Cons.prems by force
  show ?case
  proof (cases "entry c")
    case None
    have "snd (collect h p i (Suc k) cs fd) = stored cs fd"
      by (rule Cons.IH[OF rest])
    then show ?thesis using cnt ex None
      by (simp add: collect_None stored_None del: collect.simps stored.simps)
  next
    case (Some nv)
    obtain n v where nv: "nv = (n, v)" by (cases nv)
    have "snd (collect h p i (Suc k) cs (fd(n \<mapsto> v))) = stored cs (fd(n \<mapsto> v))"
      by (rule Cons.IH[OF rest])
    then show ?thesis using cnt ex Some nv
      by (simp add: collect_Some stored_Some del: collect.simps stored.simps)
  qed
qed

lemma collect_stops:
  assumes "\<forall>j<length cs1. accepts h (bodyReads i (k + j)) p"
      and "refuses h (GetControlsCount i) p = None"
      and "extractControl h p i (k + length cs1) c = Inl e"
  shows "collect h p i k (cs1 @ c # cs2) fd = (Some e, stored cs1 fd)"
  using assms
proof (induction cs1 arbitrary: k fd)
  case Nil
  then show ?case by simp
next
  case (Cons d ds)
  have a0: "accepts h (bodyReads i k) p" using Cons.prems(1) by force
  have ex: "extractControl h p i k d = Inr (entry d)" using a0 by (rule extractControl_accepts)
  have rest: "\<forall>j<length ds. accepts h (bodyReads i (Suc k + j)) p"
    using Cons.prems(1) by force
  have e: "extractControl h p i (Suc k + length ds) c = Inl e" using Cons.prems(3) by simp
  note IH = Cons.IH[OF rest Cons.prems(2) e]
  show ?case
  proof (cases "entry d")
    case None
    have "collect h p i (Suc k) (ds @ c # cs2) fd = (Some e, stored ds fd)"
      by (rule IH)
    then show ?thesis using Cons.prems(2) ex None
      by (simp add: collect_None stored_None del: collect.simps stored.simps)
  next
    case (Some nv)
    obtain n v where nv: "nv = (n, v)" by (cases nv)
    have "collect h p i (Suc k) (ds @ c # cs2) (fd(n \<mapsto> v))
            = (Some e, stored ds (fd(n \<mapsto> v)))"
      by (rule IH)
    then show ?thesis using Cons.prems(2) ex Some nv
      by (simp add: collect_Some stored_Some del: collect.simps stored.simps)
  qed
qed

lemma stored_dom: "dom (stored cs fd) = dom fd \<union> {cName c |c. c \<in> set cs \<and> entry c \<noteq> None}"
proof (induction cs arbitrary: fd)
  case Nil
  show ?case by simp
next
  case (Cons c cs)
  show ?case
  proof (cases "entry c")
    case None
    moreover have "dom (stored cs fd) = dom fd \<union> {cName c |c. c \<in> set cs \<and> entry c \<noteq> None}"
      by (rule Cons.IH)
    ultimately show ?thesis
      by (auto simp add: stored_None simp del: stored.simps)
  next
    case (Some nv)
    obtain n v where nv: "nv = (n, v)" by (cases nv)
    have n: "n = cName c" using Some nv entry_name by metis
    have "dom (stored cs (fd(n \<mapsto> v)))
            = dom (fd(n \<mapsto> v)) \<union> {cName c |c. c \<in> set cs \<and> entry c \<noteq> None}"
      by (rule Cons.IH)
    moreover have "stored (c # cs) fd = stored cs (fd(n \<mapsto> v))"
      using Some nv by (simp only: stored_Some)
    ultimately show ?thesis using n Some by auto
  qed
qed

lemma readable_nth: "readable h p i n \<Longrightarrow> \<forall>j<n. accepts h (bodyReads i (0 + j)) p"
  by (simp add: readable_def list_all_iff)

lemma showUserForm_accepts:
  assumes "findComponent f p = Some i" and "compType (p ! i) = 3"
      and "accepts h (showReads f i) p"
  shows "showUserForm h f p
         = (Inr (snd (collect h (effect h (Show i) p) i 0
                        (fControls (compDesigner (effect h (Show i) p ! i))) Map.empty)),
            effect h (Show i) p)"
  using assms
  by (simp add: showUserForm_def showUserForm_try_def item_def rethrow_def accepts_def
        showReads_def)

lemma showUserForm_Inr:
  assumes "showUserForm h f p = (Inr fd, q)"
  shows "\<exists>i. findComponent f p = Some i \<and> compType (p ! i) = 3 \<and> q = effect h (Show i) p
          \<and> fd = snd (collect h q i 0 (fControls (compDesigner (q ! i))) Map.empty)"
proof -
  have t: "showUserForm_try h f p = (Inr fd, q)"
    using assms by (auto simp: showUserForm_def rethrow_Inr split: option.splits)
  then show ?thesis
    by (auto simp: showUserForm_try_def item_def split: option.splits sum.splits if_splits)
qed

lemma CollectFormData_loop_skip:
  "CollectFormData_loop r (filter (\<lambda>c. \<not> isLabelOrButton c) cs) = CollectFormData_loop r cs"
proof (induction cs arbitrary: r)
  case Nil
  show ?case by simp
next
  case (Cons c cs)
  show ?case by (cases c) (simp_all add: Cons.IH split: option.splits)
qed

text \<open>
  The right-hand sides of the assignments to \<open>controlData\<close>, as they stand in
  \<open>vbaCode\<close>, read as VBA: the literal and what follows it.
\<close>

lemma controlData_right_hand_sides:
  \<open>vbaLiteral ''""" & control.Name & "":"" & control.Text & """'' = Some (textLiteral, [])
   \<and> vbaLiteral ''""" & control.Name & "":" & IIf(control.Value, "true", "false")''
       = Some (boolLiteral, '' & IIf(control.Value, "true", "false")'')
   \<and> vbaLiteral ''""" & control.Name & "":"" & control.List(control.ListIndex) & """''
       = Some (listLiteral, [])
   \<and> vbaLiteral ''""" & control.Name & "":"""'' = Some (noSelectionLiteral, [])
   \<and> vbaLiteral ''""" & control.Name & "":"" & control.Value & """'' = Some (valueLiteral, [])\<close>
  by (simp add: vbaLiteral_def textLiteral_def boolLiteral_def listLiteral_def
        noSelectionLiteral_def valueLiteral_def)

subsection \<open>What showUserForm returns\<close>

lemma contactProject_created:
  "createFormWithControls userHost ''ContactForm'' ''Contact'' 400 300 [txtName, chkAgree] True []
     = (Inr (), contactProject)"
  by (simp add: run_defs userHost_def txtName_def chkAgree_def contactProject_def)

lemma contactProject_shown:
  "showUserForm userHost ''ContactForm'' contactProject
     = (Inr shownData, effect userHost (Show 0) contactProject)"
  by (simp add: showUserForm_def showUserForm_try_def item_def rethrow_def userHost_def
        plainHost_def contactProject_def extractControl_def onDesigner_def onComponent_def
        fillIn_def shownData_def)

text \<open>
  Claim C1, as amended. \<^verbatim>\<open>showUserForm\<close> returns only the mapping from control names
  to values: every key of the result is the name of a control of the form, so there is no
  separate \<open>cancelled\<close> field. The flag lives in the generated code of the form:
  \<^verbatim>\<open>UserForm_QueryClose\<close> sets it when the close mode is 0 (the window's close
  button), \<^verbatim>\<open>btnCancel_Click\<close> sets it, \<^verbatim>\<open>btnOK_Click\<close> clears it, and
  \<^verbatim>\<open>WasCancelled\<close> returns it; \<^verbatim>\<open>showUserForm\<close> does not read it.
\<close>

theorem showUserForm_returns_control_values_only:
  "(showUserForm h formName p = (Inr fd, q)
     \<longrightarrow> (\<exists>i. findComponent formName p = Some i
              \<and> dom fd \<subseteq> cName ` set (fControls (compDesigner (q ! i)))))
   \<and> WasCancelled (UserForm_QueryClose Cancel 0 v)
   \<and> WasCancelled (btnCancel_Click v)
   \<and> \<not> WasCancelled (btnOK_Click v)"
proof (intro conjI impI)
  assume "showUserForm h formName p = (Inr fd, q)"
  then obtain i where i: "findComponent formName p = Some i"
      and fd: "fd = snd (collect h q i 0 (fControls (compDesigner (q ! i))) Map.empty)"
    using showUserForm_Inr by blast
  have "dom fd \<subseteq> cName ` set (fControls (compDesigner (q ! i)))"
    unfolding fd using collect_dom[of h q i 0 "fControls (compDesigner (q ! i))" Map.empty]
    by simp
  with i show "\<exists>i. findComponent formName p = Some i
              \<and> dom fd \<subseteq> cName ` set (fControls (compDesigner (q ! i)))" by blast
qed (simp_all add: WasCancelled_def UserForm_QueryClose_def btnCancel_Click_def btnOK_Click_def)

theorem showUserForm_returns_control_values_only_witness:
  "showUserForm userHost ''ContactForm'' contactProject
     = (Inr shownData, effect userHost (Show 0) contactProject)
   \<and> dom shownData
       \<subseteq> cName ` set (fControls (compDesigner (effect userHost (Show 0) contactProject ! 0)))"
  using showUserForm_returns_control_values_only
          [of userHost "''ContactForm''" contactProject shownData
              "effect userHost (Show 0) contactProject"]
        contactProject_shown
  by (simp add: contactProject_def)

text \<open>
  Claim C1 as it was stated, with a \<open>cancelled\<close> field in the result, does not hold:
  for the form built from a text box, a check box and the standard buttons, the result of
  \<^verbatim>\<open>showUserForm\<close> has the four control names as keys and no \<open>cancelled\<close> field.
\<close>

theorem showUserForm_no_cancelled_field_counterexample:
  "createFormWithControls userHost ''ContactForm'' ''Contact'' 400 300 [txtName, chkAgree] True []
     = (Inr (), contactProject)
   \<and> fst (showUserForm userHost ''ContactForm'' contactProject) = Inr shownData
   \<and> shownData ''cancelled'' = None"
  using contactProject_created contactProject_shown
  by (simp add: shownData_def)

subsection \<open>Labels and buttons in the collected data\<close>

lemma entry_None_iff:
  "entry c \<noteq> None \<longleftrightarrow> (cValue c \<noteq> Undefined \<or> cText c \<noteq> Undefined \<or> cCaption c \<noteq> Undefined)"
  by (simp add: entry_def)

text \<open>
  Claim C2, as amended. \<^verbatim>\<open>showUserForm\<close> does not look at the kind of a control: when
  no access raises, the keys of its mapping are the names of all controls for which one of
  \<^verbatim>\<open>Value\<close>, \<^verbatim>\<open>Text\<close> and \<^verbatim>\<open>Caption\<close> is defined, so a label or button with a
  caption is a key. The generated \<^verbatim>\<open>CollectFormData\<close> does leave labels and command
  buttons out: its result is the same as for the form without them. (For the other controls
  it emits the constant texts of its string literals: for a text box named \<open>txtName\<close>
  with the text \<open>Ada\<close> the entry is \<open>textLiteral\<close>, in which neither occurs.)
\<close>

theorem showUserForm_keys:
  "(findComponent formName p = Some i \<and> compType (p ! i) = 3
      \<and> accepts h (showReads formName i) p \<and> q = effect h (Show i) p
      \<and> readable h q i (length (fControls (compDesigner (q ! i))))
     \<longrightarrow> fst (showUserForm h formName p) = Inr (stored (fControls (compDesigner (q ! i))) Map.empty)
         \<and> dom (stored (fControls (compDesigner (q ! i))) Map.empty)
             = {cName c |c. c \<in> set (fControls (compDesigner (q ! i)))
                  \<and> (cValue c \<noteq> Undefined \<or> cText c \<noteq> Undefined \<or> cCaption c \<noteq> Undefined)})
   \<and> CollectFormData (filter (\<lambda>c. \<not> isLabelOrButton c) cs) = CollectFormData cs"
proof (intro conjI impI)
  assume a: "findComponent formName p = Some i \<and> compType (p ! i) = 3
      \<and> accepts h (showReads formName i) p \<and> q = effect h (Show i) p
      \<and> readable h q i (length (fControls (compDesigner (q ! i))))"
  then have col: "snd (collect h q i 0 (fControls (compDesigner (q ! i))) Map.empty)
               = stored (fControls (compDesigner (q ! i))) Map.empty"
    using collect_accepts[OF readable_nth] by blast
  from a have q: "q = effect h (Show i) p" by blast
  have sh: "showUserForm h formName p
              = (Inr (snd (collect h q i 0 (fControls (compDesigner (q ! i))) Map.empty)), q)"
    unfolding q using a showUserForm_accepts[of formName p i h] by blast
  show "fst (showUserForm h formName p)
               = Inr (stored (fControls (compDesigner (q ! i))) Map.empty)"
    by (simp only: sh col fst_conv)
  show "dom (stored (fControls (compDesigner (q ! i))) Map.empty)
             = {cName c |c. c \<in> set (fControls (compDesigner (q ! i)))
                  \<and> (cValue c \<noteq> Undefined \<or> cText c \<noteq> Undefined \<or> cCaption c \<noteq> Undefined)}"
    by (simp only: stored_dom entry_None_iff dom_empty Un_empty_left)
next
  show "CollectFormData (filter (\<lambda>c. \<not> isLabelOrButton c) cs) = CollectFormData cs"
    by (simp add: CollectFormData_def CollectFormData_loop_skip)
qed

theorem showUserForm_keys_witness:
  "fst (showUserForm userHost ''ContactForm'' contactProject)
     = Inr (stored (fControls (compDesigner (effect userHost (Show 0) contactProject ! 0)))
              Map.empty)
   \<and> CollectFormData vbaControls = ''{'' @ textLiteral @ '','' @ boolLiteral @ ''true}''"
proof -
  have r: "readable userHost (effect userHost (Show 0) contactProject) 0
             (length (fControls (compDesigner (effect userHost (Show 0) contactProject ! 0))))"
    by (simp add: readable_def accepts_def list_all_iff userHost_def plainHost_def)
  have f: "findComponent ''ContactForm'' contactProject = Some 0 \<and> compType (contactProject ! 0) = 3"
    by (simp add: contactProject_def)
  have s: "accepts userHost (showReads ''ContactForm'' 0) contactProject"
    by (simp add: accepts_def showReads_def userHost_def plainHost_def)
  have v: "CollectFormData vbaControls = ''{'' @ textLiteral @ '','' @ boolLiteral @ ''true}''"
    by (simp add: CollectFormData_def vbaControls_def textLiteral_def boolLiteral_def)
  show ?thesis
    using showUserForm_keys[of "''ContactForm''" contactProject 0 userHost
                               "effect userHost (Show 0) contactProject" vbaControls]
          r f s v
    by simp
qed

text \<open>
  Claim C2 as it was stated, with no key for a button, does not hold: for the form built
  from a text box, a check box and the standard buttons, the mapping that
  \<^verbatim>\<open>showUserForm\<close> returns has the keys \<open>btnOK\<close> and \<open>btnCancel\<close>.
\<close>

theorem showUserForm_reports_buttons_counterexample:
  "createFormWithControls userHost ''ContactForm'' ''Contact'' 400 300 [txtName, chkAgree] True []
     = (Inr (), contactProject)
   \<and> fst (showUserForm userHost ''ContactForm'' contactProject) = Inr shownData
   \<and> shownData ''btnOK'' = Some (JStr ''OK'')
   \<and> shownData ''btnCancel'' = Some (JStr ''Cancel'')"
  using contactProject_created contactProject_shown
  by (simp add: shownData_def)

subsection \<open>An error during extraction\<close>

text \<open>
  Claim C3, as amended. When an access raises during the extraction for one control,
  \<^verbatim>\<open>showUserForm\<close> does not raise, and it stops collecting there: the mapping it returns
  holds what the controls before the failing one gave, and nothing from the failing control
  or from any control after it.
\<close>

theorem extraction_stops_at_first_error:
  "findComponent formName p = Some i \<and> compType (p ! i) = 3
     \<and> accepts h (showReads formName i) p \<and> q = effect h (Show i) p
     \<and> fControls (compDesigner (q ! i)) = cs1 @ c # cs2
     \<and> readable h q i (length cs1) \<and> refuses h (GetControlsCount i) q = None
     \<and> extractControl h q i (length cs1) c = Inl e
   \<longrightarrow> showUserForm h formName p = (Inr (stored cs1 Map.empty), q)
       \<and> dom (stored cs1 Map.empty) \<subseteq> cName ` set cs1"
proof (intro impI conjI)
  assume a: "findComponent formName p = Some i \<and> compType (p ! i) = 3
     \<and> accepts h (showReads formName i) p \<and> q = effect h (Show i) p
     \<and> fControls (compDesigner (q ! i)) = cs1 @ c # cs2
     \<and> readable h q i (length cs1) \<and> refuses h (GetControlsCount i) q = None
     \<and> extractControl h q i (length cs1) c = Inl e"
  then have r: "\<forall>j<length cs1. accepts h (bodyReads i (0 + j)) q"
    using readable_nth by blast
  from a have cnt: "refuses h (GetControlsCount i) q = None" by blast
  from a have ex0: "extractControl h q i (length cs1) c = Inl e" by blast
  have ex: "extractControl h q i (0 + length cs1) c = Inl e" using ex0 by simp
  have col: "collect h q i 0 (cs1 @ c # cs2) Map.empty = (Some e, stored cs1 Map.empty)"
    by (rule collect_stops[OF r cnt ex])
  from a have q: "q = effect h (Show i) p" by blast
  from a have cs: "fControls (compDesigner (q ! i)) = cs1 @ c # cs2" by blast
  have sh: "showUserForm h formName p
              = (Inr (snd (collect h q i 0 (fControls (compDesigner (q ! i))) Map.empty)), q)"
    unfolding q using a showUserForm_accepts[of formName p i h] by blast
  show "showUserForm h formName p = (Inr (stored cs1 Map.empty), q)"
    by (simp only: sh cs col snd_conv)
  show "dom (stored cs1 Map.empty) \<subseteq> cName ` set cs1"
    by (auto simp: stored_dom)
qed

theorem extraction_stops_at_first_error_witness:
  "showUserForm faultyHost ''ContactForm'' threeFields
     = (Inr (stored [filled ''txtName'' ''Ada''] Map.empty), threeFields)"
proof -
  have q: "threeFields = effect faultyHost (Show 0) threeFields"
    by (simp add: threeFields_def faultyHost_def plainHost_def onDesigner_def onComponent_def)
  have a: "findComponent ''ContactForm'' threeFields = Some 0 \<and> compType (threeFields ! 0) = 3
     \<and> accepts faultyHost (showReads ''ContactForm'' 0) threeFields"
    by (simp add: threeFields_def faultyHost_def plainHost_def accepts_def showReads_def)
  have b: "fControls (compDesigner (threeFields ! 0))
             = [filled ''txtName'' ''Ada''] @ filled ''txtEmail'' ''ada@example.org''
               # [filled ''txtCompany'' ''Analytical Engines'']"
    by (simp add: threeFields_def)
  have c: "readable faultyHost threeFields 0 (length [filled ''txtName'' ''Ada''])
           \<and> refuses faultyHost (GetControlsCount 0) threeFields = None"
    by (simp add: readable_def accepts_def bodyReads_def faultyHost_def plainHost_def)
  have d: "extractControl faultyHost threeFields 0 (length [filled ''txtName'' ''Ada''])
             (filled ''txtEmail'' ''ada@example.org'')
           = Inl (Error ''Could not get the Value property'')"
    by (simp add: extractControl_def faultyHost_def plainHost_def)
  show ?thesis
    using extraction_stops_at_first_error
            [of "''ContactForm''" threeFields 0 faultyHost threeFields
                "[filled ''txtName'' ''Ada'']" "filled ''txtEmail'' ''ada@example.org''"
                "[filled ''txtCompany'' ''Analytical Engines'']"
                "Error ''Could not get the Value property''"]
          q a b c d
    by simp
qed

text \<open>
  Claim C3 as it was stated, with entries for all other controls, does not hold: on a form
  with three filled text boxes where reading the value of the second raises, the result
  holds the first text box only; the third, which could be read, is missing.
\<close>

theorem later_controls_lost_counterexample:
  "fst (showUserForm faultyHost ''ContactForm'' threeFields) = Inr [''txtName'' \<mapsto> JStr ''Ada'']
   \<and> [''txtName'' \<mapsto> JStr ''Ada''] ''txtCompany'' = None
   \<and> entry (filled ''txtCompany'' ''Analytical Engines'')
       = Some (''txtCompany'', JStr ''Analytical Engines'')"
  by (simp add: showUserForm_def showUserForm_try_def item_def rethrow_def faultyHost_def
        plainHost_def threeFields_def extractControl_def onDesigner_def onComponent_def
        filled_def blankControl_def entry_def)

subsection \<open>The successful path of createFormWithControls\<close>

lemma names_nth:
  assumes "map compName q = map compName p" and "i < length p"
  shows "compName (q ! i) = compName (p ! i)"
proof -
  have l: "length q = length p" using assms(1) by (rule map_eq_imp_length_eq)
  have "map compName q ! i = map compName p ! i" by (simp only: assms(1))
  then show ?thesis using assms(2) l by simp
qed

lemma findComponent_names:
  "map compName q = map compName p \<Longrightarrow> findComponent f q = findComponent f p"
proof (induction p arbitrary: q)
  case Nil
  then show ?case by simp
next
  case (Cons c p)
  then obtain d q' where q: "q = d # q'" by (cases q) auto
  from Cons.prems q have n: "compName d = compName c" and m: "map compName q' = map compName p"
    by simp_all
  show ?case unfolding q using n Cons.IH[OF m] by simp
qed

lemma grows_names: "grows p q \<Longrightarrow> map compName q = map compName p"
  unfolding grows_def
  by (induction rule: list_all2_induct) (auto simp: keeps_def)

lemma findComponent_fresh:
  "f \<notin> compName ` set p \<Longrightarrow> findComponent f (p @ [c]) = (if compName c = f then Some (length p) else None)"
  by (induction p) auto

lemma view_added: "view (added h ty n cap l t w hh d) = (n, controlClassMap ty, l, t, w, hh)"
  by (simp add: view_def added_def Let_def del: controlClassMap.simps)

lemma caption_added: "truthy cap \<Longrightarrow> cCaption (added h ty n cap l t w hh d) = JStr (orEmpty cap)"
  by (simp add: added_def Let_def del: controlClassMap.simps)

lemma fold_effect_control:
  assumes "i < length p" and "j = length (fControls (compDesigner (p ! i)))"
  shows "fold (effect h) (controlSteps i j ty n cap l t w hh) p
         = withControl i (added h ty n cap l t w hh (compDesigner (p ! i))) p"
  using assms
  by (simp add: controlSteps_def onControl_def onDesigner_def onComponent_def added_def Let_def
        withControl_def del: controlClassMap.simps)

lemma withControl_length [simp]: "length (withControl i c p) = length p"
  by (simp add: withControl_def)

lemma map_update_same: "(map f p)[i := f (p ! i)] = map f p"
  by (cases "i < length p") (simp_all add: list_update_same_conv list_update_beyond)

lemma withControl_names [simp]: "map compName (withControl i c p) = map compName p"
  by (simp add: withControl_def map_update map_update_same)

lemma withControl_controls:
  "i < length p \<Longrightarrow> fControls (compDesigner (withControl i c p ! i))
                    = fControls (compDesigner (p ! i)) @ [c]"
  by (simp add: withControl_def)

lemma withControl_name_at: "i < length p \<Longrightarrow> compName (withControl i c p ! i) = compName (p ! i)"
  by (simp add: withControl_def)

lemma addControlToUserForm_Inr:
  assumes "addControlToUserForm h f ty n cap l t w hh p = (Inr u, q)"
  shows "\<exists>i. findComponent f p = Some i \<and> compType (p ! i) = 3
           \<and> q = withControl i (added h ty n cap l t w hh (compDesigner (p ! i))) p"
proof -
  have t: "addControlToUserForm_try h f ty n cap l t w hh p = (Inr u, q)"
    using assms by (auto simp: addControlToUserForm_def rethrow_Inr split: option.splits)
  then obtain i where i: "findComponent f p = Some i" and ty: "compType (p ! i) = 3"
      and r: "runSteps h (controlSteps i (length (fControls (compDesigner (p ! i))))
                           ty n cap l t w hh) p = (Inr u, q)"
    by (auto simp: addControlToUserForm_try_def item_def simp del: runSteps.simps
             split: option.splits sum.splits if_splits)
  have il: "i < length p" using i by (rule findComponent_less)
  have q: "q = fold (effect h) (controlSteps i (length (fControls (compDesigner (p ! i))))
                                  ty n cap l t w hh) p"
    using r by (rule runSteps_Inr)
  show ?thesis
    using i ty q fold_effect_control[OF il refl, of h ty n cap l t w hh] by simp
qed

lemma addControls_Inr:
  assumes "findComponent f p = Some i" and "addControls h f cs p = (Inr u, q)"
  shows "map view (fControls (compDesigner (q ! i)))
           = map view (fControls (compDesigner (p ! i))) @ map wanted cs
         \<and> map compName q = map compName p \<and> length q = length p"
  using assms
proof (induction cs arbitrary: p)
  case Nil
  then show ?case by simp
next
  case (Cons c cs)
  let ?r = "addControlToUserForm h f (ctrl_type c) (ctrl_name c) (Some (orEmpty (ctrl_caption c)))
             (ctrl_left c) (ctrl_top c) (ctrl_width c) (ctrl_height c) p"
  obtain r1 p1 where r: "?r = (r1, p1)" by fastforce
  from Cons.prems(2) r have r1: "r1 = Inr ()" and rest: "addControls h f cs p1 = (Inr u, q)"
    by (auto split: sum.splits)
  let ?c = "added h (ctrl_type c) (ctrl_name c) (Some (orEmpty (ctrl_caption c)))
             (ctrl_left c) (ctrl_top c) (ctrl_width c) (ctrl_height c) (compDesigner (p ! i))"
  have p1: "p1 = withControl i ?c p"
    using addControlToUserForm_Inr[of h f _ _ _ _ _ _ _ p "()" p1] r r1 Cons.prems(1) by auto
  have il: "i < length p" using Cons.prems(1) by (rule findComponent_less)
  have f1: "findComponent f p1 = Some i"
    using Cons.prems(1) findComponent_names[of p1 p f] by (simp add: p1)
  have v: "view ?c = wanted c" by (simp add: view_added wanted_def)
  have IH: "map view (fControls (compDesigner (q ! i)))
              = map view (fControls (compDesigner (p1 ! i))) @ map wanted cs
            \<and> map compName q = map compName p1 \<and> length q = length p1"
    by (rule Cons.IH[OF f1 rest])
  show ?case
    using IH v il by (simp add: p1 withControl_controls)
qed

lemma onComponent_code_designers:
  "map compDesigner (onComponent i (\<lambda>c. c\<lparr>compCode := g c\<rparr>) p) = map compDesigner p"
  by (simp add: onComponent_def map_update map_update_same)

lemma addStandardFormEventHandlers_try_designers:
  "map compDesigner (snd (addStandardFormEventHandlers_try h f p)) = map compDesigner p"
proof (cases "item h f p")
  case (Inl e)
  then show ?thesis
    by (simp add: addStandardFormEventHandlers_try_def split: option.splits)
next
  case (Inr i)
  let ?r = "runSteps h [GetCodeModule i, GetCountOfLines i, GetLines i] p"
  have a: "snd ?r = p"
    by (rule runSteps_reads) auto
  have b: "map compDesigner (snd (runSteps h [AddFromString i buttonCode] p)) = map compDesigner p"
    by (simp add: onComponent_code_designers split: option.splits)
  show ?thesis
  proof (cases "fst ?r")
    case (Inl e)
    then show ?thesis using Inr a
      by (cases ?r)
         (simp add: addStandardFormEventHandlers_try_def
               del: runSteps.simps split: option.splits)
  next
    case r: (Inr u)
    then show ?thesis using Inr a b
      by (cases ?r)
         (simp add: addStandardFormEventHandlers_try_def
               del: runSteps.simps split: option.splits)
  qed
qed

lemma addStandardFormEventHandlers_designers:
  "map compDesigner (snd (addStandardFormEventHandlers h f p)) = map compDesigner p"
  using addStandardFormEventHandlers_try_designers[of h f p]
  by (simp add: addStandardFormEventHandlers_def split: option.splits)

lemma withControl_type_at: "i < length p \<Longrightarrow> compType (withControl i c p ! i) = compType (p ! i)"
  by (simp add: withControl_def)

lemma addButtons_Inr:
  assumes "findComponent f p = Some i" and "addButtons h f w ht p = (Inr u, q)"
  shows "map view (fControls (compDesigner (q ! i)))
           = map view (fControls (compDesigner (p ! i))) @ [okView w ht, cancelView w ht]
         \<and> map cCaption (drop (length (fControls (compDesigner (p ! i))))
                             (fControls (compDesigner (q ! i))))
             = [JStr ''OK'', JStr ''Cancel'']
         \<and> map compName q = map compName p \<and> length q = length p"
proof -
  let ?r1 = "addControlToUserForm h f ''commandButton'' ''btnOK'' (Some ''OK'')
               (Number_minus (Number_minus w 20) 160) (Number_minus ht 60) 70 30 p"
  obtain r1 p1 where r1: "?r1 = (r1, p1)" by fastforce
  let ?r2 = "addControlToUserForm h f ''commandButton'' ''btnCancel'' (Some ''Cancel'')
               (Number_minus (Number_minus w 20) 80) (Number_minus ht 60) 70 30 p1"
  obtain r2 p2 where r2: "?r2 = (r2, p2)" by fastforce
  from assms(2) r1 r2 have ok1: "r1 = Inr ()" and ok2: "r2 = Inr ()"
      and hq: "addStandardFormEventHandlers h f p2 = (Inr u, q)"
    by (auto simp: addButtons_def Let_def split: sum.splits)
  let ?c1 = "added h ''commandButton'' ''btnOK'' (Some ''OK'') (Number_minus (Number_minus w 20) 160) (Number_minus ht 60) 70 30
               (compDesigner (p ! i))"
  have p1: "p1 = withControl i ?c1 p"
    using addControlToUserForm_Inr[of h f _ _ _ _ _ _ _ p "()" p1] r1 ok1 assms(1) by auto
  have il: "i < length p" using assms(1) by (rule findComponent_less)
  have f1: "findComponent f p1 = Some i"
    using assms(1) findComponent_names[of p1 p f] by (simp add: p1)
  let ?c2 = "added h ''commandButton'' ''btnCancel'' (Some ''Cancel'') (Number_minus (Number_minus w 20) 80) (Number_minus ht 60) 70 30
               (compDesigner (p1 ! i))"
  have p2: "p2 = withControl i ?c2 p1"
    using addControlToUserForm_Inr[of h f _ _ _ _ _ _ _ p1 "()" p2] r2 ok2 f1 by auto
  have g: "grows p2 q" using addStandardFormEventHandlers_grows[of p2 h f] hq by simp
  have lq: "length q = length p2" using g by (rule grows_length)
  have d: "map compDesigner q = map compDesigner p2"
    using addStandardFormEventHandlers_designers[of h f p2] hq by simp
  have li: "i < length p2" using il by (simp add: p2 p1)
  have "compDesigner (q ! i) = map compDesigner q ! i" using li lq by simp
  also have "\<dots> = map compDesigner p2 ! i" by (simp only: d)
  also have "\<dots> = compDesigner (p2 ! i)" using li by simp
  finally have di: "compDesigner (q ! i) = compDesigner (p2 ! i)" .
  have c2: "fControls (compDesigner (p2 ! i)) = fControls (compDesigner (p ! i)) @ [?c1, ?c2]"
    using il by (simp add: p2 p1 withControl_controls)
  have v1: "view ?c1 = okView w ht" by (simp add: view_added okView_def)
  have v2: "view ?c2 = cancelView w ht" by (simp add: view_added cancelView_def)
  have k1: "cCaption ?c1 = JStr ''OK''" using caption_added[of "Some ''OK''"] by simp
  have k2: "cCaption ?c2 = JStr ''Cancel''" using caption_added[of "Some ''Cancel''"] by simp
  have n: "map compName q = map compName p"
    using grows_names[OF g] by (simp add: p2 p1)
  have lp: "length p2 = length p" by (simp add: p2 p1)
  show ?thesis
    using v1 v2 k1 k2 n lq lp by (simp add: di c2)
qed

lemma createFormWithControls_Inr_parts:
  assumes "createFormWithControls h f cap w ht cs b p = (Inr u, q)"
  shows "\<exists>p1 p2. createUserForm h f (Some cap) w ht p = (Inr (), p1)
           \<and> addControls h f cs p1 = (Inr (), p2)
           \<and> (if b then addButtons h f w ht p2 = (Inr (), q) else q = p2)"
proof -
  have t: "createFormWithControls_try h f cap w ht cs b p = (Inr u, q)"
    using assms by (auto simp: createFormWithControls_def rethrow_Inr split: option.splits)
  obtain r1 p1 where c: "createUserForm h f (Some cap) w ht p = (r1, p1)" by fastforce
  obtain r2 p2 where a: "addControls h f cs p1 = (r2, p2)" by fastforce
  from t c a show ?thesis
    by (cases r1; cases r2; cases b) (auto simp: createFormWithControls_try_def)
qed

lemma createUserForm_Inr_last:
  assumes "createUserForm h f cap w ht p = (Inr u, q)" and "f \<notin> compName ` set p"
  shows "findComponent f q = Some (length p)"
proof -
  have s: "length q = Suc (length p) \<and> compName (q ! length p) = f"
    using createUserForm_Inr[OF assms(1)] by simp
  have tk: "take (length p) q = p" using createUserForm_take[of p h f cap w ht] assms(1) by simp
  have "q = take (Suc (length p)) q" using s by simp
  also have "\<dots> = take (length p) q @ [q ! length p]"
    by (rule take_Suc_conv_app_nth) (simp add: s)
  also have "\<dots> = p @ [q ! length p]" by (simp only: tk)
  finally have q: "q = p @ [q ! length p]" .
  have "findComponent f (p @ [q ! length p]) = Some (length p)"
    using findComponent_fresh[OF assms(2), of "q ! length p"] s by simp
  then show ?thesis using q by simp
qed

lemma addControlToUserForm_plain:
  assumes "\<forall>c s. refuses h c s = None" and "findComponent f p = Some i"
      and "compType (p ! i) = 3"
  shows "addControlToUserForm h f ty n cap l t w hh p
         = (Inr (), withControl i (added h ty n cap l t w hh (compDesigner (p ! i))) p)"
proof -
  have il: "i < length p" using assms(2) by (rule findComponent_less)
  show ?thesis
    using assms
    by (simp add: addControlToUserForm_def addControlToUserForm_try_def item_def rethrow_def
          runSteps_plain fold_effect_control[OF il refl] del: runSteps.simps)
qed

lemma addControls_plain:
  assumes "\<forall>c s. refuses h c s = None" and "findComponent f p = Some i"
      and "compType (p ! i) = 3"
  shows "\<exists>q. addControls h f cs p = (Inr (), q) \<and> findComponent f q = Some i
             \<and> compType (q ! i) = 3"
  using assms(2,3)
proof (induction cs arbitrary: p)
  case Nil
  then show ?case by simp
next
  case (Cons c cs)
  let ?p1 = "withControl i (added h (ctrl_type c) (ctrl_name c) (Some (orEmpty (ctrl_caption c)))
               (ctrl_left c) (ctrl_top c) (ctrl_width c) (ctrl_height c) (compDesigner (p ! i))) p"
  have il: "i < length p" using Cons.prems(1) by (rule findComponent_less)
  have s: "addControlToUserForm h f (ctrl_type c) (ctrl_name c) (Some (orEmpty (ctrl_caption c)))
             (ctrl_left c) (ctrl_top c) (ctrl_width c) (ctrl_height c) p = (Inr (), ?p1)"
    by (rule addControlToUserForm_plain[OF assms(1) Cons.prems])
  have f1: "findComponent f ?p1 = Some i"
    using Cons.prems(1) findComponent_names[of ?p1 p f] by simp
  have t1: "compType (?p1 ! i) = 3" using Cons.prems(2) il by (simp add: withControl_type_at)
  obtain q where "addControls h f cs ?p1 = (Inr (), q) \<and> findComponent f q = Some i
             \<and> compType (q ! i) = 3"
    using Cons.IH[OF f1 t1] by blast
  then show ?case using s by simp
qed

lemma addStandardFormEventHandlers_plain:
  assumes "\<forall>c s. refuses h c s = None" and "findComponent f p = Some i"
      and "compType (p ! i) = 3"
  shows "fst (addStandardFormEventHandlers h f p) = Inr ()"
  using assms
  by (simp add: addStandardFormEventHandlers_def addStandardFormEventHandlers_try_def item_def
        rethrow_def Let_def)

lemma addButtons_plain:
  assumes "\<forall>c s. refuses h c s = None" and "findComponent f p = Some i"
      and "compType (p ! i) = 3"
  shows "fst (addButtons h f w ht p) = Inr ()"
proof -
  let ?c1 = "added h ''commandButton'' ''btnOK'' (Some ''OK'') (Number_minus (Number_minus w 20) 160) (Number_minus ht 60) 70 30
               (compDesigner (p ! i))"
  let ?p1 = "withControl i ?c1 p"
  have il: "i < length p" using assms(2) by (rule findComponent_less)
  have s1: "addControlToUserForm h f ''commandButton'' ''btnOK'' (Some ''OK'')
              (Number_minus (Number_minus w 20) 160) (Number_minus ht 60) 70 30 p = (Inr (), ?p1)"
    by (rule addControlToUserForm_plain[OF assms])
  have f1: "findComponent f ?p1 = Some i"
    using assms(2) findComponent_names[of ?p1 p f] by simp
  have t1: "compType (?p1 ! i) = 3" using assms(3) il by (simp add: withControl_type_at)
  let ?c2 = "added h ''commandButton'' ''btnCancel'' (Some ''Cancel'') (Number_minus (Number_minus w 20) 80) (Number_minus ht 60) 70 30
               (compDesigner (?p1 ! i))"
  let ?p2 = "withControl i ?c2 ?p1"
  have s2: "addControlToUserForm h f ''commandButton'' ''btnCancel'' (Some ''Cancel'')
              (Number_minus (Number_minus w 20) 80) (Number_minus ht 60) 70 30 ?p1 = (Inr (), ?p2)"
    by (rule addControlToUserForm_plain[OF assms(1) f1 t1])
  have f2: "findComponent f ?p2 = Some i"
    using f1 findComponent_names[of ?p2 ?p1 f] by simp
  have t2: "compType (?p2 ! i) = 3" using t1 il by (simp add: withControl_type_at)
  have s3: "fst (addStandardFormEventHandlers h f ?p2) = Inr ()"
    by (rule addStandardFormEventHandlers_plain[OF assms(1) f2 t2])
  show ?thesis
    unfolding addButtons_def Let_def using s1 s2 s3 by simp
qed

lemma createFormWithControls_plain:
  assumes "\<forall>c s. refuses h c s = None" and "f \<notin> compName ` set p"
  shows "fst (createFormWithControls h f cap w ht cs b p) = Inr ()"
proof -
  have "fst (createUserForm h f (Some cap) w ht p) = Inr ()"
    using assms(1) by (simp add: createUserForm_def createUserForm_try_def rethrow_def Let_def)
  then obtain p1 where c: "createUserForm h f (Some cap) w ht p = (Inr (), p1)"
    by (cases "createUserForm h f (Some cap) w ht p") auto
  have f1: "findComponent f p1 = Some (length p)" by (rule createUserForm_Inr_last[OF c assms(2)])
  have t1: "compType (p1 ! length p) = 3" using createUserForm_Inr[OF c] by simp
  obtain p2 where a: "addControls h f cs p1 = (Inr (), p2)"
      and f2: "findComponent f p2 = Some (length p)" and t2: "compType (p2 ! length p) = 3"
    using addControls_plain[OF assms(1) f1 t1] by blast
  have b: "fst (addButtons h f w ht p2) = Inr ()" by (rule addButtons_plain[OF assms(1) f2 t2])
  show ?thesis
    using assms(1) c a b
    by (cases "addButtons h f w ht p2")
       (simp add: createFormWithControls_def createFormWithControls_try_def rethrow_def)
qed

text \<open>
  The controls of a new form. When \<^verbatim>\<open>createFormWithControls\<close> succeeds for a form
  name that is not yet in the project, the new form holds exactly the described controls,
  in order, each with its name, class and geometry, followed, if \<open>addStandardButtons\<close>
  is true, by the two buttons \<open>btnOK\<close> and \<open>btnCancel\<close> with the captions \<open>OK\<close>
  and \<open>Cancel\<close>, placed from the \<open>width\<close> and \<open>height\<close> that were passed; if
  \<open>addStandardButtons\<close> is false nothing is added beyond the list. On a host that refuses
  nothing the operation does succeed.
\<close>

lemma createFormWithControls_controls:
  "(formName \<notin> compName ` set p
      \<and> createFormWithControls h formName caption width height controls addStandardButtons p
          = (Inr (), q)
     \<longrightarrow> length q = Suc (length p) \<and> compName (q ! length p) = formName
         \<and> map view (fControls (compDesigner (q ! length p)))
             = map wanted controls
               @ (if addStandardButtons then [okView width height, cancelView width height]
                  else [])
         \<and> (addStandardButtons
              \<longrightarrow> map cCaption (drop (length controls) (fControls (compDesigner (q ! length p))))
                   = [JStr ''OK'', JStr ''Cancel'']))
   \<and> (formName \<notin> compName ` set p \<and> (\<forall>c s. refuses h c s = None)
     \<longrightarrow> fst (createFormWithControls h formName caption width height controls
                 addStandardButtons p) = Inr ())"
proof (intro conjI impI)
  assume a: "formName \<notin> compName ` set p
      \<and> createFormWithControls h formName caption width height controls addStandardButtons p
          = (Inr (), q)"
  then obtain p1 p2 where c: "createUserForm h formName (Some caption) width height p = (Inr (), p1)"
      and ad: "addControls h formName controls p1 = (Inr (), p2)"
      and bt: "if addStandardButtons then addButtons h formName width height p2 = (Inr (), q)
               else q = p2"
    using createFormWithControls_Inr_parts by blast
  let ?n = "length p"
  have s1: "length p1 = Suc ?n \<and> compName (p1 ! ?n) = formName
            \<and> fControls (compDesigner (p1 ! ?n)) = []"
    using createUserForm_Inr[OF c] by simp
  have f1: "findComponent formName p1 = Some ?n"
    using createUserForm_Inr_last[OF c] a by blast
  have s2: "map view (fControls (compDesigner (p2 ! ?n))) = map wanted controls
            \<and> map compName p2 = map compName p1 \<and> length p2 = length p1"
    using addControls_Inr[OF f1 ad] s1 by simp
  have f2: "findComponent formName p2 = Some ?n"
    using f1 s2 findComponent_names[of p2 p1 formName] by simp
  have l2: "length (fControls (compDesigner (p2 ! ?n))) = length controls"
    using s2 by (metis length_map)
  have s3: "map view (fControls (compDesigner (q ! ?n)))
             = map wanted controls
               @ (if addStandardButtons then [okView width height, cancelView width height]
                  else [])
            \<and> (addStandardButtons
              \<longrightarrow> map cCaption (drop (length controls) (fControls (compDesigner (q ! ?n))))
                   = [JStr ''OK'', JStr ''Cancel''])
            \<and> map compName q = map compName p2 \<and> length q = length p2"
  proof (cases addStandardButtons)
    case True
    then have "addButtons h formName width height p2 = (Inr (), q)" using bt by simp
    from addButtons_Inr[OF f2 this] show ?thesis using True s2 l2 by simp
  next
    case False
    then have "q = p2" using bt by simp
    then show ?thesis using False s2 by simp
  qed
  show "length q = Suc (length p)" using s1 s2 s3 by simp
  have "map compName q = map compName p1" using s2 s3 by simp
  then have "compName (q ! ?n) = compName (p1 ! ?n)"
    by (rule names_nth) (simp add: s1)
  then show "compName (q ! length p) = formName" using s1 by simp
  show "map view (fControls (compDesigner (q ! length p)))
             = map wanted controls
               @ (if addStandardButtons then [okView width height, cancelView width height]
                  else [])"
    using s3 by blast
  { assume addStandardButtons
    then show "map cCaption (drop (length controls) (fControls (compDesigner (q ! length p))))
                   = [JStr ''OK'', JStr ''Cancel'']"
      using s3 by blast }
next
  assume "formName \<notin> compName ` set p \<and> (\<forall>c s. refuses h c s = None)"
  then show "fst (createFormWithControls h formName caption width height controls
                 addStandardButtons p) = Inr ()"
    using createFormWithControls_plain by blast
qed

subsection \<open>Where the standard buttons are placed\<close>

text \<open>
  On safe integers from the floor upwards the differences are exact: the buttons for a
  width and a height are at the left positions \<open>width - 180\<close> and \<open>width - 100\<close> and
  at the top position \<open>height - 60\<close>.
\<close>

lemma Number_minus_exact: "\<bar>a - b\<bar> \<le> 9007199254740992 \<Longrightarrow> Number_minus a b = a - b"
  by (simp add: Number_minus_def roundNumber_def)

lemma standard_views_exact:
  assumes "isSafeInteger width" and "isSafeInteger height" and "300 \<le> width" and "200 \<le> height"
  shows "okView width height
           = (''btnOK'', Some ''Forms.CommandButton.1'', width - 180, height - 60, 70, 30)"
    and "cancelView width height
           = (''btnCancel'', Some ''Forms.CommandButton.1'', width - 100, height - 60, 70, 30)"
  using assms by (simp_all add: okView_def cancelView_def isSafeInteger_def Number_minus_exact)

text \<open>
  Beyond the safe integers the differences are rounded: for the width \<open>2\<^sup>6\<^sup>0\<close> both
  buttons get the left position \<open>2\<^sup>6\<^sup>0 - 128\<close>.
\<close>

lemma standard_views_rounded:
  "okView 1152921504606846976 300
     = (''btnOK'', Some ''Forms.CommandButton.1'', 1152921504606846848, 240, 70, 30)
   \<and> cancelView 1152921504606846976 300
     = (''btnCancel'', Some ''Forms.CommandButton.1'', 1152921504606846848, 240, 70, 30)"
  by (simp add: okView_def cancelView_def Number_minus_def roundNumber_def Let_def bitlen.simps)

text \<open>
  When the width is at least 300 and the height at least 200, and the host accepts them as
  the size of the new form, the form has that width and height, so that the buttons are
  placed from the size of the form: at its height minus 60, and at its width minus 180 and
  minus 100 when these are safe integers.
\<close>

lemma standard_buttons_from_form_size:
  "formName \<notin> compName ` set p \<and> 300 \<le> width \<and> 200 \<le> height
     \<and> (\<forall>s. refuses h (SetWidth (length p) width) s = None)
     \<and> (\<forall>s. refuses h (SetHeight (length p) height) s = None)
     \<and> createFormWithControls h formName caption width height controls addStandardButtons p
         = (Inr (), q)
   \<longrightarrow> fWidth (compDesigner (q ! length p)) = width
       \<and> fHeight (compDesigner (q ! length p)) = height
       \<and> map view (fControls (compDesigner (q ! length p)))
           = map wanted controls
             @ (if addStandardButtons
                then [okView (fWidth (compDesigner (q ! length p)))
                             (fHeight (compDesigner (q ! length p))),
                      cancelView (fWidth (compDesigner (q ! length p)))
                                 (fHeight (compDesigner (q ! length p)))]
                else [])
       \<and> (isSafeInteger width \<and> isSafeInteger height
          \<longrightarrow> okView (fWidth (compDesigner (q ! length p))) (fHeight (compDesigner (q ! length p)))
                = (''btnOK'', Some ''Forms.CommandButton.1'',
                   fWidth (compDesigner (q ! length p)) - 180,
                   fHeight (compDesigner (q ! length p)) - 60, 70, 30)
              \<and> cancelView (fWidth (compDesigner (q ! length p)))
                            (fHeight (compDesigner (q ! length p)))
                = (''btnCancel'', Some ''Forms.CommandButton.1'',
                   fWidth (compDesigner (q ! length p)) - 100,
                   fHeight (compDesigner (q ! length p)) - 60, 70, 30))"
proof (intro impI)
  assume a: "formName \<notin> compName ` set p \<and> 300 \<le> width \<and> 200 \<le> height
     \<and> (\<forall>s. refuses h (SetWidth (length p) width) s = None)
     \<and> (\<forall>s. refuses h (SetHeight (length p) height) s = None)
     \<and> createFormWithControls h formName caption width height controls addStandardButtons p
         = (Inr (), q)"
  then have cr: "createFormWithControls h formName caption width height controls
                   addStandardButtons p = (Inr (), q)" by blast
  from a have mw: "max width 300 = width" and mh: "max height 200 = height" by auto
  obtain p1 where c: "createUserForm h formName (Some caption) width height p = (Inr (), p1)"
      and g: "grows p1 q"
    using createFormWithControls_Inr[OF cr] by blast
  have l: "length p1 = Suc (length p)" using createUserForm_Inr[OF c] by simp
  have k: "keeps (p1 ! length p) (q ! length p)" using g l by (simp add: grows_nth)
  have sz: "fWidth (compDesigner (p1 ! length p)) = max width 300
         \<and> fHeight (compDesigner (p1 ! length p)) = max height 200"
    using createUserForm_size[OF c] a mw mh by simp
  have w: "fWidth (compDesigner (q ! length p)) = width" using k sz mw by (simp add: keeps_def)
  have ht: "fHeight (compDesigner (q ! length p)) = height" using k sz mh by (simp add: keeps_def)
  have v: "map view (fControls (compDesigner (q ! length p)))
             = map wanted controls
               @ (if addStandardButtons then [okView width height, cancelView width height]
                  else [])"
    using createFormWithControls_controls[of formName p h caption width height controls
            addStandardButtons q] a by blast
  have e: "isSafeInteger width \<and> isSafeInteger height
          \<longrightarrow> okView width height
                = (''btnOK'', Some ''Forms.CommandButton.1'', width - 180, height - 60, 70, 30)
              \<and> cancelView width height
                = (''btnCancel'', Some ''Forms.CommandButton.1'', width - 100, height - 60, 70, 30)"
    using standard_views_exact[of width height] a by blast
  show "fWidth (compDesigner (q ! length p)) = width
       \<and> fHeight (compDesigner (q ! length p)) = height
       \<and> map view (fControls (compDesigner (q ! length p)))
           = map wanted controls
             @ (if addStandardButtons
                then [okView (fWidth (compDesigner (q ! length p)))
                             (fHeight (compDesigner (q ! length p))),
                      cancelView (fWidth (compDesigner (q ! length p)))
                                 (fHeight (compDesigner (q ! length p)))]
                else [])
       \<and> (isSafeInteger width \<and> isSafeInteger height
          \<longrightarrow> okView (fWidth (compDesigner (q ! length p))) (fHeight (compDesigner (q ! length p)))
                = (''btnOK'', Some ''Forms.CommandButton.1'',
                   fWidth (compDesigner (q ! length p)) - 180,
                   fHeight (compDesigner (q ! length p)) - 60, 70, 30)
              \<and> cancelView (fWidth (compDesigner (q ! length p)))
                            (fHeight (compDesigner (q ! length p)))
                = (''btnCancel'', Some ''Forms.CommandButton.1'',
                   fWidth (compDesigner (q ! length p)) - 100,
                   fHeight (compDesigner (q ! length p)) - 60, 70, 30))"
    unfolding w ht using v e by simp
qed


subsection \<open>A control that cannot be added\<close>

lemma addControls_append:
  "addControls h f (cs1 @ cs2) p =
     (case addControls h f cs1 p of
        (Inl e, q) \<Rightarrow> (Inl e, q)
      | (Inr u, q) \<Rightarrow> addControls h f cs2 q)"
  by (induction cs1 arbitrary: p) (auto split: prod.splits sum.splits)

lemma createUserForm_Inr_doc:
  "createUserForm h f cap w ht p = (Inr u, q) \<Longrightarrow> refuses h GetActiveDocument p = None"
  by (auto simp: createUserForm_def split: option.splits)

text \<open>
  Claim C8. If the form was created, the controls \<open>cs1\<close> were added, and adding the
  next control fails with the error \<open>e\<close>, then \<^verbatim>\<open>createFormWithControls\<close> fails
  with an error that names the form and carries \<open>e\<close>, and it returns the project as the
  failed step left it: the form is still there, under its name, and every control that was
  attached before the failing one is still attached in its place (\<open>grows\<close>). Nothing is
  rolled back.
\<close>

theorem control_failure_leaves_earlier_controls:
  "createUserForm h formName (Some caption) width height p = (Inr (), p1)
     \<and> addControls h formName cs1 p1 = (Inr (), p2)
     \<and> addControlToUserForm h formName (ctrl_type c) (ctrl_name c)
          (Some (orEmpty (ctrl_caption c))) (ctrl_left c) (ctrl_top c) (ctrl_width c)
          (ctrl_height c) p2 = (Inl e, p3)
   \<longrightarrow> createFormWithControls h formName caption width height (cs1 @ c # cs2)
         addStandardButtons p
       = (Inl (Error (''Failed to create form '' @ quoted formName @ ''. Error: ''
                      @ String_error e)), p3)
     \<and> grows p2 p3 \<and> length p3 = Suc (length p)
     \<and> compName (p3 ! length p) = formName \<and> compType (p3 ! length p) = 3"
proof (intro impI)
  assume a: "createUserForm h formName (Some caption) width height p = (Inr (), p1)
     \<and> addControls h formName cs1 p1 = (Inr (), p2)
     \<and> addControlToUserForm h formName (ctrl_type c) (ctrl_name c)
          (Some (orEmpty (ctrl_caption c))) (ctrl_left c) (ctrl_top c) (ctrl_width c)
          (ctrl_height c) p2 = (Inl e, p3)"
  then have c1: "createUserForm h formName (Some caption) width height p = (Inr (), p1)"
      and c2: "addControls h formName cs1 p1 = (Inr (), p2)"
      and c3: "addControlToUserForm h formName (ctrl_type c) (ctrl_name c)
          (Some (orEmpty (ctrl_caption c))) (ctrl_left c) (ctrl_top c) (ctrl_width c)
          (ctrl_height c) p2 = (Inl e, p3)"
    by blast+
  have doc: "refuses h GetActiveDocument p = None" using c1 by (rule createUserForm_Inr_doc)
  have ad: "addControls h formName (cs1 @ c # cs2) p1 = (Inl e, p3)"
    using c2 c3 by (simp add: addControls_append)
  have r: "createFormWithControls h formName caption width height (cs1 @ c # cs2)
         addStandardButtons p
       = (Inl (Error (''Failed to create form '' @ quoted formName @ ''. Error: ''
                      @ String_error e)), p3)"
    using doc c1 ad
    by (simp add: createFormWithControls_def createFormWithControls_try_def rethrow_def)
  have g12: "grows p1 p2" using addControls_grows[of p1 h formName cs1] c2 by simp
  have g23: "grows p2 p3"
    using addControlToUserForm_grows[of p2 h formName "ctrl_type c" "ctrl_name c"
            "Some (orEmpty (ctrl_caption c))" "ctrl_left c" "ctrl_top c" "ctrl_width c"
            "ctrl_height c"] c3 by simp
  have g13: "grows p1 p3" using g12 g23 by (rule grows_trans)
  have s1: "length p1 = Suc (length p) \<and> compName (p1 ! length p) = formName
            \<and> compType (p1 ! length p) = 3"
    using createUserForm_Inr[OF c1] by simp
  have k: "keeps (p1 ! length p) (p3 ! length p)"
    using g13 s1 by (simp add: grows_nth)
  show "createFormWithControls h formName caption width height (cs1 @ c # cs2)
         addStandardButtons p
       = (Inl (Error (''Failed to create form '' @ quoted formName @ ''. Error: ''
                      @ String_error e)), p3)
     \<and> grows p2 p3 \<and> length p3 = Suc (length p)
     \<and> compName (p3 ! length p) = formName \<and> compType (p3 ! length p) = 3"
    using r g23 s1 k grows_length[OF g13] by (simp add: keeps_def)
qed

lemma strict_form_created:
  "createUserForm strictHost ''ContactForm'' (Some ''Contact'') 400 300 [] = (Inr (), formWith [])"
  by (simp add: run_defs formWith_def)

lemma strict_first_added:
  "addControls strictHost ''ContactForm'' [txtEmail] (formWith []) = (Inr (), formWith [emailBox])"
  by (simp add: run_defs formWith_def txtEmail_def emailBox_def)

lemma strict_second_refused:
  "addControlToUserForm strictHost ''ContactForm'' (ctrl_type txtEmail) (ctrl_name txtEmail)
     (Some (orEmpty (ctrl_caption txtEmail))) (ctrl_left txtEmail) (ctrl_top txtEmail)
     (ctrl_width txtEmail) (ctrl_height txtEmail) (formWith [emailBox])
   = (Inl duplicateNameError, formWith [emailBox, unnamedBox])"
  by (simp add: run_defs formWith_def txtEmail_def emailBox_def unnamedBox_def
        duplicateNameError_def)

theorem control_failure_leaves_earlier_controls_witness:
  "createFormWithControls strictHost ''ContactForm'' ''Contact'' 400 300
     ([txtEmail] @ txtEmail # [chkAgree]) True []
     = (Inl (Error (''Failed to create form '' @ quoted ''ContactForm'' @ ''. Error: ''
                    @ String_error duplicateNameError)),
        formWith [emailBox, unnamedBox])
   \<and> grows (formWith [emailBox]) (formWith [emailBox, unnamedBox])"
  using control_failure_leaves_earlier_controls
          [of strictHost "''ContactForm''" "''Contact''" 400 300 "[]" "formWith []"
              "[txtEmail]" "formWith [emailBox]" txtEmail duplicateNameError
              "formWith [emailBox, unnamedBox]" "[chkAgree]" True]
        strict_form_created strict_first_added strict_second_refused
  by simp

subsection \<open>Repeated control names\<close>

lemma createUserForm_added:
  assumes "accepts h [GetActiveDocument, GetVBProject, VBComponentsAdd 3] p"
  shows "length (snd (createUserForm h f cap w ht p)) = Suc (length p)"
  using assms
  by (auto simp: createUserForm_def createUserForm_try_def accepts_def Let_def
                 onDesigner_def onComponent_def split: option.splits)

lemma createFormWithControls_grows:
  "grows (snd (createUserForm h f (Some cap) w ht p))
         (snd (createFormWithControls h f cap w ht cs b p))"
proof (cases "refuses h GetActiveDocument p")
  case (Some e)
  then show ?thesis
    by (simp add: createFormWithControls_def createUserForm_def grows_refl)
next
  case None
  obtain r1 p1 where c: "createUserForm h f (Some cap) w ht p = (r1, p1)" by fastforce
  obtain r2 p2 where a: "addControls h f cs p1 = (r2, p2)" by fastforce
  have g2: "grows p1 p2" using addControls_grows[of p1 h f cs] a by simp
  have g3: "grows p1 (snd (addButtons h f w ht p2))"
    using g2 addButtons_grows by (rule grows_trans)
  have "grows p1 (snd (createFormWithControls_try h f cap w ht cs b p))"
    using c a g2 g3
    by (cases r1; cases r2; cases b) (simp_all add: createFormWithControls_try_def grows_refl)
  then show ?thesis using None c by (simp add: createFormWithControls_def)
qed

text \<open>
  Claim C5, as amended. \<^verbatim>\<open>createFormWithControls\<close> does not validate the control
  names. It creates the form in the host before it looks at any control: once the host has
  accepted the document, the project and the new component, the project has one component
  more, whether the call then succeeds or fails. A repeated name leads to a failure only if
  the host refuses the name; on a host that refuses nothing the call succeeds for every
  list of controls, repeated names included.
\<close>

theorem form_made_before_names_are_seen:
  "(accepts h [GetActiveDocument, GetVBProject, VBComponentsAdd 3] p
     \<longrightarrow> length (snd (createFormWithControls h formName caption width height controls
                       addStandardButtons p)) = Suc (length p))
   \<and> (formName \<notin> compName ` set p \<and> (\<forall>c s. refuses h c s = None)
     \<longrightarrow> fst (createFormWithControls h formName caption width height controls
                 addStandardButtons p) = Inr ())"
proof (intro conjI impI)
  assume "accepts h [GetActiveDocument, GetVBProject, VBComponentsAdd 3] p"
  then have "length (snd (createUserForm h formName (Some caption) width height p))
               = Suc (length p)"
    by (rule createUserForm_added)
  then show "length (snd (createFormWithControls h formName caption width height controls
                       addStandardButtons p)) = Suc (length p)"
    using grows_length[OF createFormWithControls_grows
            [of h formName caption width height p controls addStandardButtons]]
    by simp
next
  assume "formName \<notin> compName ` set p \<and> (\<forall>c s. refuses h c s = None)"
  then show "fst (createFormWithControls h formName caption width height controls
                 addStandardButtons p) = Inr ()"
    using createFormWithControls_plain by blast
qed

theorem form_made_before_names_are_seen_witness:
  "length (snd (createFormWithControls strictHost ''ContactForm'' ''Contact'' 400 300
                  [txtEmail, txtEmail] True [])) = 1
   \<and> fst (createFormWithControls plainHost ''ContactForm'' ''Contact'' 400 300
             [txtEmail, txtEmail] True []) = Inr ()"
  using form_made_before_names_are_seen
          [where h = strictHost and p = "[]" and formName = "''ContactForm''"
             and caption = "''Contact''" and width = 400 and height = 300
             and controls = "[txtEmail, txtEmail]" and addStandardButtons = True]
        form_made_before_names_are_seen
          [where h = plainHost and p = "[]" and formName = "''ContactForm''"
             and caption = "''Contact''" and width = 400 and height = 300
             and controls = "[txtEmail, txtEmail]" and addStandardButtons = True]
  by (simp add: accepts_def strictHost_def plainHost_def)

text \<open>
  Claim C5 as it was stated, with a failure before any host call, does not hold: with two
  controls named \<open>txtEmail\<close> on the strict host, the call fails only after the form,
  the first control and the second, still unnamed, control were created; on the plain host
  it succeeds.
\<close>

theorem duplicate_names_counterexample:
  "createFormWithControls strictHost ''ContactForm'' ''Contact'' 400 300 [txtEmail, txtEmail] True []
     = (Inl (Error (''Failed to create form '' @ quoted ''ContactForm'' @ ''. Error: ''
                    @ String_error duplicateNameError)),
        formWith [emailBox, unnamedBox])
   \<and> fst (createFormWithControls plainHost ''ContactForm'' ''Contact'' 400 300
             [txtEmail, txtEmail] True []) = Inr ()"
  by (simp add: run_defs formWith_def txtEmail_def emailBox_def unnamedBox_def
        duplicateNameError_def buttonCode_def)

end
